theory Spec2Isabelle
  imports Main "HOL-Library.Sublist" "HOL-Library.List_Lexorder" "HOL-Library.Char_ord"
begin

section \<open>CodeBrick: clean, save, export and import of templates\<close>

text \<open>
  A shallow embedding of the commands of \<^verbatim>\<open>src/commands\<close> (clean, save, import,
  export) and of the helpers of \<^verbatim>\<open>lib/utils\<close> they call. Strings are lists of
  characters; a character stands for one code unit below 256. What the JavaScript
  runtime and third-party libraries compute (dynamically built regular expressions,
  fast-glob, the JSON text of a record, the clock) is a field of the record \<open>env\<close>.
\<close>

subsection \<open>JavaScript strings\<close>

definition nl :: char where
  "nl = CHR 0x0A"

definition cr :: char where
  "cr = CHR 0x0D"

definition sq :: char where
  "sq = CHR 0x27"

definition dq :: char where
  "dq = CHR 0x22"

definition bs :: char where
  "bs = CHR 0x5C"

text \<open>A JavaScript string used as a condition: the empty string and \<open>undefined\<close> are falsy.\<close>

fun truthy :: "string option \<Rightarrow> bool" where
  "truthy None = False"
| "truthy (Some s) = (s \<noteq> [])"

text \<open>
  \<^verbatim>\<open>s.split(sep)\<close> for a one-character separator: never the empty array, so a
  character that is not the separator goes in front of the first piece of the rest.
\<close>

fun split :: "char \<Rightarrow> string \<Rightarrow> string list" where
  "split sep [] = [[]]"
| "split sep (c # cs) =
     (if c = sep then [] # split sep cs
      else (case split sep cs of
              [] \<Rightarrow> [[c]]
            | piece # pieces \<Rightarrow> (c # piece) # pieces))"

text \<open>\<^verbatim>\<open>xs.join(sep)\<close>.\<close>

fun join :: "string \<Rightarrow> string list \<Rightarrow> string" where
  "join sep [] = []"
| "join sep [x] = x"
| "join sep (x # y # ys) = x @ sep @ join sep (y # ys)"

text \<open>White space and line terminators, as \<^verbatim>\<open>trim()\<close> and \<^verbatim>\<open>\s\<close> see them.\<close>

definition isSpace :: "char \<Rightarrow> bool" where
  "isSpace c = (c \<in> set [CHR 0x09, CHR 0x0A, CHR 0x0B, CHR 0x0C, CHR 0x0D, CHR 0x20, CHR 0xA0])"

definition isLineTerminator :: "char \<Rightarrow> bool" where
  "isLineTerminator c = (c = nl \<or> c = cr)"

definition isWord :: "char \<Rightarrow> bool" where
  "isWord c = (c \<in> set (''abcdefghijklmnopqrstuvwxyz'' @ ''ABCDEFGHIJKLMNOPQRSTUVWXYZ''
                          @ ''0123456789_''))"

definition trim :: "string \<Rightarrow> string" where
  "trim s = rev (dropWhile isSpace (rev (dropWhile isSpace s)))"

text \<open>\<^verbatim>\<open>s.includes(p)\<close>.\<close>

fun includes_str :: "string \<Rightarrow> string \<Rightarrow> bool" where
  "includes_str [] p = (p = [])"
| "includes_str (c # cs) p = (prefix p (c # cs) \<or> includes_str cs p)"

text \<open>\<^verbatim>\<open>s.toLowerCase()\<close> on the letters A to Z.\<close>

definition lowerChar :: "char \<Rightarrow> char" where
  "lowerChar c = (case map_of (zip ''ABCDEFGHIJKLMNOPQRSTUVWXYZ'' ''abcdefghijklmnopqrstuvwxyz'') c of
                    Some l \<Rightarrow> l | None \<Rightarrow> c)"

definition toLowerCase :: "string \<Rightarrow> string" where
  "toLowerCase s = map lowerChar s"

text \<open>
  \<^verbatim>\<open>s.replace(/\n{3,}/g, "\n\n")\<close>: every maximal run of three or more newlines
  becomes two. Dropping the first newline of each window of three does the same.
\<close>

fun collapse :: "string \<Rightarrow> string" where
  "collapse (a # b # c # cs) =
     (if a = nl \<and> b = nl \<and> c = nl then collapse (b # c # cs)
      else a # collapse (b # c # cs))"
| "collapse cs = cs"

subsection \<open>Paths\<close>

text \<open>\<^verbatim>\<open>path.basename\<close> and \<^verbatim>\<open>path.extname\<close> on a path in normal form.\<close>

definition basename :: "string \<Rightarrow> string" where
  "basename p = rev (takeWhile (\<lambda>c. c \<noteq> CHR ''/'') (rev p))"

definition extname :: "string \<Rightarrow> string" where
  "extname p =
     (let b = basename p;
          e = rev (takeWhile (\<lambda>c. c \<noteq> CHR ''.'') (rev b))
      in if CHR ''.'' \<notin> set b \<or> b = ''..'' \<or> length e + 1 = length b then []
         else CHR ''.'' # e)"

subsection \<open>The regular expressions of the clean command\<close>

text \<open>
  The literals of \<^verbatim>\<open>LOCAL_IMPORT_PATTERNS\<close> all have the shape \<^verbatim>\<open>/^body$/gm\<close>.
  A body is a term of \<open>rx\<close>; \<open>test_gm\<close> is \<^verbatim>\<open>pattern.test(s)\<close> after
  \<^verbatim>\<open>pattern.lastIndex = 0\<close>: some stretch of \<open>s\<close> from a line start to a line end
  matches the body.
\<close>

datatype rx =
    Zero
  | Eps
  | Lit string
  | Dot
  | Space
  | NonSpace
  | Word
  | OneOf "char list"
  | NoneOf "char list"
  | Seq rx rx
  | Alt rx rx
  | Star rx

definition Plus :: "rx \<Rightarrow> rx" where
  "Plus r = Seq r (Star r)"

definition Opt :: "rx \<Rightarrow> rx" where
  "Opt r = Alt r Eps"

definition seqs :: "rx list \<Rightarrow> rx" where
  "seqs rs = foldr Seq rs Eps"

fun nullable :: "rx \<Rightarrow> bool" where
  "nullable Zero = False"
| "nullable Eps = True"
| "nullable (Lit s) = (s = [])"
| "nullable (Seq r s) = (nullable r \<and> nullable s)"
| "nullable (Alt r s) = (nullable r \<or> nullable s)"
| "nullable (Star r) = True"
| "nullable _ = False"

fun mkSeq :: "rx \<Rightarrow> rx \<Rightarrow> rx" where
  "mkSeq Zero s = Zero"
| "mkSeq Eps s = s"
| "mkSeq r s = Seq r s"

fun mkAlt :: "rx \<Rightarrow> rx \<Rightarrow> rx" where
  "mkAlt Zero s = s"
| "mkAlt r Zero = r"
| "mkAlt r s = Alt r s"

definition step :: "bool \<Rightarrow> rx" where
  "step b = (if b then Eps else Zero)"

fun deriv :: "char \<Rightarrow> rx \<Rightarrow> rx" where
  "deriv x Zero = Zero"
| "deriv x Eps = Zero"
| "deriv x (Lit []) = Zero"
| "deriv x (Lit (c # cs)) = (if x = c then Lit cs else Zero)"
| "deriv x Dot = step (\<not> isLineTerminator x)"
| "deriv x Space = step (isSpace x)"
| "deriv x NonSpace = step (\<not> isSpace x)"
| "deriv x Word = step (isWord x)"
| "deriv x (OneOf cs) = step (x \<in> set cs)"
| "deriv x (NoneOf cs) = step (x \<notin> set cs)"
| "deriv x (Seq r s) =
     (if nullable r then mkAlt (mkSeq (deriv x r) s) (deriv x s)
      else mkSeq (deriv x r) s)"
| "deriv x (Alt r s) = mkAlt (deriv x r) (deriv x s)"
| "deriv x (Star r) = mkSeq (deriv x r) (Star r)"

definition matches :: "rx \<Rightarrow> string \<Rightarrow> bool" where
  "matches r s = nullable (fold deriv s r)"

definition lineStarts :: "string \<Rightarrow> nat list" where
  "lineStarts s = 0 # [Suc k. k \<leftarrow> [0..<length s], isLineTerminator (s ! k)]"

definition lineEnds :: "string \<Rightarrow> nat list" where
  "lineEnds s = [k. k \<leftarrow> [0..<length s], isLineTerminator (s ! k)] @ [length s]"

definition test_gm :: "rx \<Rightarrow> string \<Rightarrow> bool" where
  "test_gm body s =
     (\<exists>i \<in> set (lineStarts s). \<exists>j \<in> set (lineEnds s).
        i \<le> j \<and> matches body (take (j - i) (drop i s)))"

definition quotes :: "char list" where
  "quotes = [sq, dq]"

text \<open>\<^verbatim>\<open>['"]\.\.?\/[^'"]+['"]\s*;?\s*\<close>: a quoted relative path and the end of the statement.\<close>

definition relativeTail :: "rx list" where
  "relativeTail = [OneOf quotes, Lit ''.'', Opt (Lit ''.''), Lit ''/'', Plus (NoneOf quotes),
                   OneOf quotes, Star Space, Opt (Lit '';''), Star Space]"

definition packageTail :: "rx list" where
  "packageTail = [OneOf quotes, Lit ''package:'', Plus (NoneOf ''/''), Lit ''/'',
                  Plus (NoneOf quotes), OneOf quotes, Star Space, Opt (Lit '';''), Star Space]"

definition scriptPatterns :: "rx list" where
  "scriptPatterns =
     [seqs ([Lit ''import'', Plus Space, Star Dot, Lit ''from'', Plus Space] @ relativeTail),
      seqs ([Lit ''import'', Plus Space] @ relativeTail),
      seqs ([Lit ''export'', Plus Space, Star Dot, Lit ''from'', Plus Space] @ relativeTail)]"

definition requirePattern :: rx where
  "requirePattern =
     seqs [Lit ''const'', Plus Space, Plus Word, Star Space, Lit ''='', Star Space,
           Lit ''require'', Star Space, Lit ''('', Star Space,
           OneOf quotes, Lit ''.'', Opt (Lit ''.''), Lit ''/'', Plus (NoneOf quotes), OneOf quotes,
           Star Space, Lit '')'', Star Space, Opt (Lit '';''), Star Space]"

definition LOCAL_IMPORT_PATTERNS :: "(string \<times> rx list) list" where
  "LOCAL_IMPORT_PATTERNS =
     [(''.dart'', [seqs ([Lit ''import'', Plus Space] @ packageTail),
                  seqs ([Lit ''export'', Plus Space] @ packageTail)]),
      (''.ts'', scriptPatterns),
      (''.tsx'', scriptPatterns),
      (''.js'', scriptPatterns @ [requirePattern]),
      (''.jsx'', scriptPatterns),
      (''.py'', [seqs [Lit ''from'', Plus Space, Lit ''.'', Star NonSpace, Plus Space,
                       Lit ''import'', Plus Space, Star Dot],
                 seqs [Lit ''import'', Plus Space, Lit ''.'', Plus NonSpace, Star Dot]]),
      (''.go'', []),
      (''.rs'', [seqs [Lit ''use'', Plus Space, Lit ''crate::'', Star Dot, Lit '';'', Star Space],
                 seqs [Lit ''use'', Plus Space, Lit ''super::'', Star Dot, Lit '';'', Star Space]]),
      (''.swift'', []),
      (''.kt'', [])]"

definition EXTERNAL_PREFIXES :: "(string \<times> string list) list" where
  "EXTERNAL_PREFIXES =
     [(''.dart'',
       [''package:flutter/'', ''package:flutter_'', ''package:dart:'', ''package:go_router/'',
        ''package:dio/'', ''package:http/'', ''package:provider/'', ''package:bloc/'',
        ''package:flutter_bloc/'', ''package:get/'', ''package:riverpod/'',
        ''package:hooks_riverpod/'', ''package:freezed_annotation/'',
        ''package:json_annotation/'', ''package:equatable/'', ''package:dartz/'',
        ''package:injectable/'', ''package:get_it/'', ''package:shared_preferences/'',
        ''package:path_provider/'', ''package:sqflite/'', ''package:hive/'',
        ''package:firebase_'', ''package:cloud_firestore/'', ''package:intl/'',
        ''package:cached_network_image/'', ''package:image_picker/'',
        ''package:url_launcher/'', ''package:connectivity'', ''package:permission_handler/'',
        ''package:auto_route/'', ''package:mockito/'', ''package:test/'',
        ''package:flutter_test/''])]"

definition isExternalImport :: "string \<Rightarrow> string \<Rightarrow> bool" where
  "isExternalImport line ext =
     (let prefixes = (case map_of EXTERNAL_PREFIXES ext of Some ps \<Rightarrow> ps | None \<Rightarrow> [])
      in \<exists>p \<in> set prefixes. includes_str line p)"

subsection \<open>Data model\<close>

datatype error =
    NotInitialized
  | NotFound
  | UnsupportedType
  | MetadataMissing
  | PathMissing
  | NotADirectory
  | NoFiles
  | FileNotFound
  | InvalidArchive
  | BadMetadata
  | SyntaxError
  | IOFailure

text \<open>
  How a command ends: it returns, it stops after the user cancelled or declined
  (\<^verbatim>\<open>process.exit(0)\<close>, or the early return of the import), or it fails
  (\<^verbatim>\<open>process.exit(1)\<close> or an exception nobody catches).
\<close>

datatype outcome = Success | Cancelled | Failed error

text \<open>What a prompt returns: the value entered, or the cancel symbol that \<^verbatim>\<open>p.isCancel\<close> detects.\<close>

datatype 'a reply = Cancel | Answer 'a

record Source =
  origin :: string
  source_path :: string

record BrickMetadata =
  name :: string
  type :: string
  version :: string
  description :: "string option"
  createdAt :: "string option"
  updatedAt :: string
  source :: Source
  files :: "string list"
  tags :: "string list option"
  dependencies :: "(string \<times> string) list option"

record LocalTemplate =
  path :: string
  t_description :: string
  t_tags :: "string list"
  t_createdAt :: string
  t_updatedAt :: string

datatype Template = Local LocalTemplate | Remote string

text \<open>
  A file holds text, or the JSON document of a metadata record (what
  \<^verbatim>\<open>JSON.stringify\<close> writes and \<^verbatim>\<open>readJson\<close> reads back); a text that does not
  parse as such a document is \<open>Text\<close>.
\<close>

datatype content = Text string | Json BrickMetadata

text \<open>The directory a template is saved from, as \<^verbatim>\<open>readdir\<close> walks it.\<close>

datatype dirent = File string content | Dir string "dirent list"

datatype fsnode = Absent | IsFile content | IsDir "dirent list"

text \<open>
  A storage directory lists its files by relative path, in normal form, without duplicates;
  an archive lists its entries the same way.
\<close>

type_synonym tdir = "(string \<times> content) list"

datatype node = RegularFile content | Directory tdir

text \<open>
  The persisted state: whether the storage was initialised, the registry of
  \<^verbatim>\<open>store.json\<close> in insertion order, and what lies at each storage path.
\<close>

record state =
  initialized :: bool
  store :: "(string \<times> Template) list"
  dirs :: "string \<Rightarrow> node option"

text \<open>The runtime and the libraries the commands call.\<close>

record env =
  CODEBRICK_DIR :: string
  now :: string
  RegExp :: "string \<Rightarrow> (string \<Rightarrow> bool) option"
  JSON_stringify :: "BrickMetadata \<Rightarrow> string"
  fg :: "string list \<Rightarrow> string list \<Rightarrow> dirent list \<Rightarrow> string list"
  detectDependencies :: "string \<Rightarrow> string \<Rightarrow> string list"
  pubspecName :: "string \<Rightarrow> string option"
  packageJsonName :: "string \<Rightarrow> string option"
  pyprojectName :: "string \<Rightarrow> string option"

text \<open>
  \<open>RegExp E src\<close> is \<^verbatim>\<open>new RegExp(src)\<close>: \<open>None\<close> when the constructor throws,
  else the \<^verbatim>\<open>test\<close> method. \<open>fg E patterns ignore tree\<close> is fast-glob with
  \<^verbatim>\<open>cwd\<close> the directory \<open>tree\<close>. \<open>detectDependencies\<close> is the scan of
  \<^verbatim>\<open>lib/utils\<close>, and the three name readers are the extractions of
  \<^verbatim>\<open>detectProjectName\<close>, each \<open>None\<close> when nothing matches or parsing throws.
\<close>

text \<open>Writing a key of an object or a file of a directory: replaced in place, or added last.\<close>

fun put :: "'k \<Rightarrow> 'v \<Rightarrow> ('k \<times> 'v) list \<Rightarrow> ('k \<times> 'v) list" where
  "put k v [] = [(k, v)]"
| "put k v (p # ps) = (if fst p = k then (k, v) # ps else p # put k v ps)"

definition textOf :: "env \<Rightarrow> content \<Rightarrow> string" where
  "textOf E c = (case c of Text s \<Rightarrow> s | Json m \<Rightarrow> JSON_stringify E m)"

subsection \<open>The storage layer\<close>

text \<open>
  \<^verbatim>\<open>lib/storage\<close> is not among the sources; the commands import the functions below
  from it. Each is written from the spec: section 6 gives the layout (\<^verbatim>\<open>store.json\<close>
  and \<^verbatim>\<open>templates/<name>/brick.json\<close> under one root), section 4.1 the registry and
  the resolution of a name or 1-based index, section 4.2 the metadata store. A template
  name is taken as one path segment.
\<close>

text \<open>Modelled from the spec: \<^verbatim>\<open>isInitialized\<close> of \<^verbatim>\<open>lib/storage\<close>, whether the root exists.\<close>

definition isInitialized :: "state \<Rightarrow> bool" where
  "isInitialized st = initialized st"

text \<open>
  Modelled from the spec: \<^verbatim>\<open>getTemplatePath\<close> of \<^verbatim>\<open>lib/storage\<close>, the storage
  directory \<^verbatim>\<open>templates/<name>\<close> under the root \<^verbatim>\<open>CODEBRICK_DIR\<close>.
\<close>

definition getTemplatePath :: "env \<Rightarrow> string \<Rightarrow> string" where
  "getTemplatePath E n = CODEBRICK_DIR E @ ''/templates/'' @ n"

text \<open>Modelled from the spec: \<^verbatim>\<open>getTemplate\<close> of \<^verbatim>\<open>lib/storage\<close>, the registry's \<open>get\<close>.\<close>

definition getTemplate :: "state \<Rightarrow> string \<Rightarrow> Template option" where
  "getTemplate st n = map_of (store st) n"

text \<open>
  Modelled from the spec: \<^verbatim>\<open>templateExists\<close> of \<^verbatim>\<open>lib/storage\<close>; the registry is the
  single source of truth for which names are taken.
\<close>

definition templateExists :: "state \<Rightarrow> string \<Rightarrow> bool" where
  "templateExists st n = (getTemplate st n \<noteq> None)"

text \<open>Modelled from the spec: \<^verbatim>\<open>addTemplateToStore\<close> of \<^verbatim>\<open>lib/storage\<close>, the registry's \<open>put\<close>.\<close>

definition addTemplateToStore :: "string \<Rightarrow> Template \<Rightarrow> state \<Rightarrow> state" where
  "addTemplateToStore n t st = st\<lparr>store := put n t (store st)\<rparr>"

text \<open>
  Modelled from the spec: \<^verbatim>\<open>loadTemplateMetadata\<close> of \<^verbatim>\<open>lib/storage\<close>; a missing or
  unparsable \<^verbatim>\<open>brick.json\<close> is "not found".
\<close>

definition loadTemplateMetadata :: "env \<Rightarrow> state \<Rightarrow> string \<Rightarrow> BrickMetadata option" where
  "loadTemplateMetadata E st n =
     (case dirs st (getTemplatePath E n) of
        Some (Directory d) \<Rightarrow>
          (case map_of d ''brick.json'' of Some (Json m) \<Rightarrow> Some m | _ \<Rightarrow> None)
      | _ \<Rightarrow> None)"

text \<open>
  Modelled from the spec: \<^verbatim>\<open>saveTemplateMetadata\<close> of \<^verbatim>\<open>lib/storage\<close>; it overwrites
  \<^verbatim>\<open>brick.json\<close> in the storage directory, and fails (\<open>None\<close>) without one.
\<close>

definition saveTemplateMetadata :: "env \<Rightarrow> string \<Rightarrow> BrickMetadata \<Rightarrow> state \<Rightarrow> state option" where
  "saveTemplateMetadata E n m st =
     (case dirs st (getTemplatePath E n) of
        Some (Directory d) \<Rightarrow>
          Some (st\<lparr>dirs := (dirs st)(getTemplatePath E n \<mapsto> Directory (put ''brick.json'' (Json m) d))\<rparr>)
      | _ \<Rightarrow> None)"

definition isDigit :: "char \<Rightarrow> bool" where
  "isDigit c = (c \<in> set ''0123456789'')"

definition digitValue :: "char \<Rightarrow> nat" where
  "digitValue c = of_char c - 48"

definition parseIndex :: "string \<Rightarrow> nat option" where
  "parseIndex s =
     (if s \<noteq> [] \<and> list_all isDigit s then Some (foldl (\<lambda>a c. 10 * a + digitValue c) 0 s)
      else None)"

text \<open>
  Modelled from the spec: \<^verbatim>\<open>resolveTemplateName\<close> of \<^verbatim>\<open>lib/storage\<close>. An input that
  parses as a positive integer within the count of the registry is the name at that
  position; any other input is a name and must be in the registry.
\<close>

definition resolveTemplateName :: "state \<Rightarrow> string \<Rightarrow> string option" where
  "resolveTemplateName st x =
     (let names = map fst (store st)
      in case parseIndex x of
           Some i \<Rightarrow>
             if 1 \<le> i \<and> i \<le> length names then Some (names ! (i - 1))
             else if x \<in> set names then Some x else None
         | None \<Rightarrow> if x \<in> set names then Some x else None)"

subsection \<open>The file system calls\<close>

definition pathExists :: "state \<Rightarrow> string \<Rightarrow> bool" where
  "pathExists st p = (dirs st p \<noteq> None)"

definition fs_remove :: "string \<Rightarrow> state \<Rightarrow> state" where
  "fs_remove p st = st\<lparr>dirs := (dirs st)(p := None)\<rparr>"

text \<open>\<^verbatim>\<open>fs.ensureDir\<close> throws when a regular file is in the way.\<close>

definition ensureDir :: "string \<Rightarrow> state \<Rightarrow> state option" where
  "ensureDir p st =
     (case dirs st p of
        None \<Rightarrow> Some (st\<lparr>dirs := (dirs st)(p \<mapsto> Directory [])\<rparr>)
      | Some (Directory d) \<Rightarrow> Some st
      | Some (RegularFile c) \<Rightarrow> None)"

subsection \<open>clean: \<^verbatim>\<open>cleanFileContent\<close>\<close>

record CleanResult =
  cleaned :: string
  removedCount :: nat

text \<open>The source of the project-import pattern, \<^verbatim>\<open>^(import|export)\s+['"]package:NAME/\<close>.\<close>

definition projectImportSource :: "string \<Rightarrow> string" where
  "projectImportSource projectName =
     ''^(import|export)'' @ [bs] @ ''s+['' @ [sq, dq] @ '']package:'' @ projectName @ ''/''"

text \<open>The three checks of the loop body, in the order of the source.\<close>

definition customRemoves :: "env \<Rightarrow> string option \<Rightarrow> string \<Rightarrow> error + bool" where
  "customRemoves E customPattern line =
     (case customPattern of
        None \<Rightarrow> Inr False
      | Some src \<Rightarrow>
          if src = [] then Inr False
          else (case RegExp E src of None \<Rightarrow> Inl SyntaxError | Some regex \<Rightarrow> Inr (regex line)))"

definition projectRemoves ::
  "env \<Rightarrow> string \<Rightarrow> string option \<Rightarrow> bool \<Rightarrow> string \<Rightarrow> error + bool" where
  "projectRemoves E ext projectName keepExternal line =
     (case projectName of
        None \<Rightarrow> Inr False
      | Some pn \<Rightarrow>
          if ext \<noteq> ''.dart'' \<or> pn = [] then Inr False
          else (case RegExp E (projectImportSource pn) of
                  None \<Rightarrow> Inl SyntaxError
                | Some regex \<Rightarrow>
                    Inr (regex (trim line) \<and> \<not> (keepExternal \<and> isExternalImport line ext))))"

definition builtinRemoves :: "string \<Rightarrow> bool \<Rightarrow> string \<Rightarrow> bool" where
  "builtinRemoves ext keepExternal line =
     (let patterns = (case map_of LOCAL_IMPORT_PATTERNS ext of Some ps \<Rightarrow> ps | None \<Rightarrow> [])
      in case find (\<lambda>pattern. test_gm pattern (trim line)) patterns of
           None \<Rightarrow> False
         | Some pattern \<Rightarrow> \<not> (keepExternal \<and> isExternalImport line ext))"

definition shouldRemove ::
  "env \<Rightarrow> string \<Rightarrow> string option \<Rightarrow> string option \<Rightarrow> bool \<Rightarrow> string \<Rightarrow> error + bool" where
  "shouldRemove E ext customPattern projectName keepExternal line =
     (case customRemoves E customPattern line of
        Inl e \<Rightarrow> Inl e
      | Inr True \<Rightarrow> Inr True
      | Inr False \<Rightarrow>
          (case projectRemoves E ext projectName keepExternal line of
             Inl e \<Rightarrow> Inl e
           | Inr True \<Rightarrow> Inr True
           | Inr False \<Rightarrow> Inr (builtinRemoves ext keepExternal line)))"

text \<open>The loop over the lines: the kept lines and the count so far; an exception ends it.\<close>

fun cleanLines ::
  "(string \<Rightarrow> error + bool) \<Rightarrow> string list \<Rightarrow> string list \<times> nat \<Rightarrow> error + string list \<times> nat" where
  "cleanLines f [] acc = Inr acc"
| "cleanLines f (line # rest) (cleanedLines, n) =
     (case f line of
        Inl e \<Rightarrow> Inl e
      | Inr True \<Rightarrow> cleanLines f rest (cleanedLines, Suc n)
      | Inr False \<Rightarrow> cleanLines f rest (cleanedLines @ [line], n))"

definition cleanFileContent ::
  "env \<Rightarrow> string \<Rightarrow> string \<Rightarrow> string option \<Rightarrow> string option \<Rightarrow> bool \<Rightarrow> error + CleanResult" where
  "cleanFileContent E content ext customPattern projectName keepExternal =
     (case cleanLines (shouldRemove E ext customPattern projectName keepExternal)
             (split nl content) ([], 0) of
        Inl e \<Rightarrow> Inl e
      | Inr (cleanedLines, n) \<Rightarrow>
          Inr \<lparr>cleaned = collapse (join [nl] cleanedLines), removedCount = n\<rparr>)"

subsection \<open>clean: \<^verbatim>\<open>cleanCommand\<close>\<close>

record CleanOptions =
  pattern :: "string option"
  dryRun :: bool
  keepExternal :: "bool option"

definition detectProjectName :: "env \<Rightarrow> tdir \<Rightarrow> string option" where
  "detectProjectName E d =
     (case (case map_of d ''pubspec.yaml'' of
              Some c \<Rightarrow> pubspecName E (textOf E c) | None \<Rightarrow> None) of
        Some n \<Rightarrow> Some n
      | None \<Rightarrow>
          (case (case map_of d ''package.json'' of
                   Some c \<Rightarrow> packageJsonName E (textOf E c) | None \<Rightarrow> None) of
             Some n \<Rightarrow> Some n
           | None \<Rightarrow>
               (case map_of d ''pyproject.toml'' of
                  Some c \<Rightarrow> pyprojectName E (textOf E c) | None \<Rightarrow> None)))"

text \<open>\<^verbatim>\<open>options.keepExternal !== false\<close>.\<close>

definition keepFlag :: "CleanOptions \<Rightarrow> bool" where
  "keepFlag opts = (keepExternal opts \<noteq> Some False)"

text \<open>
  The first loop: which files have imports to remove. A file that cannot be read, or
  whose cleaning throws, is skipped.
\<close>

definition analyzeFile ::
  "env \<Rightarrow> tdir \<Rightarrow> CleanOptions \<Rightarrow> string option \<Rightarrow> string \<Rightarrow> (string \<times> string \<times> nat) list" where
  "analyzeFile E d opts projectName file =
     (let ext = toLowerCase (extname file)
      in if map_of LOCAL_IMPORT_PATTERNS ext = None \<and> \<not> truthy (pattern opts) then []
         else (case map_of d file of
                 None \<Rightarrow> []
               | Some c \<Rightarrow>
                   (case cleanFileContent E (textOf E c) ext (pattern opts) projectName
                           (keepFlag opts) of
                      Inl e \<Rightarrow> []
                    | Inr r \<Rightarrow> if removedCount r > 0 then [(file, ext, removedCount r)] else [])))"

text \<open>The second loop: one file read, cleaned and written back; skipped when that throws.\<close>

definition cleanOne ::
  "env \<Rightarrow> CleanOptions \<Rightarrow> string option \<Rightarrow> string \<times> string \<times> nat \<Rightarrow> tdir \<Rightarrow> tdir" where
  "cleanOne E opts projectName entry d =
     (case map_of d (fst entry) of
        None \<Rightarrow> d
      | Some c \<Rightarrow>
          (case cleanFileContent E (textOf E c) (fst (snd entry)) (pattern opts) projectName
                  (keepFlag opts) of
             Inl e \<Rightarrow> d
           | Inr r \<Rightarrow> put (fst entry) (Text (cleaned r)) d))"

definition cleanCommand ::
  "env \<Rightarrow> state \<Rightarrow> string \<Rightarrow> CleanOptions \<Rightarrow> bool reply \<Rightarrow> outcome \<times> state" where
  "cleanCommand E st nameOrIndex opts confirmed =
     (if \<not> isInitialized st then (Failed NotInitialized, st)
      else case resolveTemplateName st nameOrIndex of
        None \<Rightarrow> (Failed NotFound, st)
      | Some n \<Rightarrow>
       (case getTemplate st n of
          None \<Rightarrow> (Failed NotFound, st)
        | Some (Remote r) \<Rightarrow> (Failed UnsupportedType, st)
        | Some (Local t) \<Rightarrow>
         (case loadTemplateMetadata E st n of
            None \<Rightarrow> (Failed MetadataMissing, st)
          | Some metadata \<Rightarrow>
           (case dirs st (getTemplatePath E n) of
              Some (Directory d) \<Rightarrow>
                (let projectName = detectProjectName E d;
                     filesToClean = concat (map (analyzeFile E d opts projectName) (files metadata))
                 in if filesToClean = [] then (Success, st)
                    else if dryRun opts then (Success, st)
                    else if confirmed \<noteq> Answer True then (Cancelled, st)
                    else
                      (let d' = fold (cleanOne E opts projectName) filesToClean d;
                           st' = st\<lparr>dirs := (dirs st)(getTemplatePath E n \<mapsto> Directory d')\<rparr>
                       in case saveTemplateMetadata E n (metadata\<lparr>updatedAt := now E\<rparr>) st' of
                            Some st'' \<Rightarrow> (Success, st'')
                          | None \<Rightarrow> (Failed IOFailure, st')))
            | _ \<Rightarrow> (Failed MetadataMissing, st)))))"

subsection \<open>export\<close>

type_synonym archive = "(string \<times> content) list"

text \<open>
  \<^verbatim>\<open>archive.directory(templatePath, "template", filter)\<close> followed by
  \<^verbatim>\<open>archive.append(metadataBuffer, {name: "brick.json"})\<close>. The filter sees every entry
  under its path relative to \<^verbatim>\<open>templatePath\<close>.
\<close>

definition createBrickArchive :: "tdir \<Rightarrow> BrickMetadata \<Rightarrow> archive" where
  "createBrickArchive d metadata =
     map (\<lambda>entry. (''template/'' @ fst entry, snd entry))
         (filter (\<lambda>entry. fst entry \<noteq> ''brick.json'') d)
     @ [(''brick.json'', Json metadata)]"

text \<open>The command leaves the state as it is; the archive is what it writes to the output path.\<close>

definition exportCommand :: "env \<Rightarrow> state \<Rightarrow> string \<Rightarrow> outcome \<times> archive option" where
  "exportCommand E st templateNameOrIndex =
     (if \<not> isInitialized st then (Failed NotInitialized, None)
      else case resolveTemplateName st templateNameOrIndex of
        None \<Rightarrow> (Failed NotFound, None)
      | Some templateName \<Rightarrow>
       (case getTemplate st templateName of
          None \<Rightarrow> (Failed NotFound, None)
        | Some (Remote r) \<Rightarrow> (Failed UnsupportedType, None)
        | Some (Local t) \<Rightarrow>
           if \<not> pathExists st (getTemplatePath E templateName) then (Failed FileNotFound, None)
           else (case loadTemplateMetadata E st templateName of
                   None \<Rightarrow> (Failed MetadataMissing, None)
                 | Some metadata \<Rightarrow>
                    (case dirs st (getTemplatePath E templateName) of
                       Some (Directory d) \<Rightarrow> (Success, Some (createBrickArchive d metadata))
                     | _ \<Rightarrow> (Failed MetadataMissing, None)))))"

subsection \<open>save\<close>

definition startsWithDot :: "string \<Rightarrow> bool" where
  "startsWithDot s = prefix ''.'' s"

text \<open>
  \<^verbatim>\<open>getFilesRecursive(dir, baseDir)\<close>: \<open>collectFiles pre es\<close> is the array
  \<^verbatim>\<open>files\<close> at the end of the loop over the entries \<open>es\<close> of a directory whose path
  relative to \<^verbatim>\<open>baseDir\<close> is \<open>pre\<close>; each level returns it sorted.
\<close>

fun collectFiles :: "string \<Rightarrow> dirent list \<Rightarrow> string list" where
  "collectFiles pre [] = []"
| "collectFiles pre (File n c # es) =
     (if \<not> startsWithDot n \<and> n \<noteq> ''brick.json'' then [pre @ n] else []) @ collectFiles pre es"
| "collectFiles pre (Dir n sub # es) =
     (if startsWithDot n \<or> n = ''node_modules'' \<or> n = ''__pycache__'' then []
      else sort (collectFiles (pre @ n @ ''/'') sub)) @ collectFiles pre es"

definition getFilesRecursive :: "dirent list \<Rightarrow> string list" where
  "getFilesRecursive es = sort (collectFiles [] es)"

fun entryName :: "dirent \<Rightarrow> string" where
  "entryName (File n c) = n"
| "entryName (Dir n es) = n"

fun lookupPath :: "string list \<Rightarrow> dirent list \<Rightarrow> dirent option" where
  "lookupPath [] es = None"
| "lookupPath [n] es = find (\<lambda>e. entryName e = n) es"
| "lookupPath (n # m # ms) es =
     (case find (\<lambda>e. entryName e = n) es of
        Some (Dir n' sub) \<Rightarrow> lookupPath (m # ms) sub
      | _ \<Rightarrow> None)"

text \<open>Every file below a directory, for \<^verbatim>\<open>fs.copy\<close> of a directory.\<close>

fun allFiles :: "string \<Rightarrow> dirent list \<Rightarrow> tdir" where
  "allFiles pre [] = []"
| "allFiles pre (File n c # es) = (pre @ n, c) # allFiles pre es"
| "allFiles pre (Dir n sub # es) = allFiles (pre @ n @ ''/'') sub @ allFiles pre es"

definition writeAll :: "tdir \<Rightarrow> tdir \<Rightarrow> tdir" where
  "writeAll entries d = fold (\<lambda>entry. put (fst entry) (snd entry)) entries d"

text \<open>
  The copy loop: \<^verbatim>\<open>fs.copy(sourcefile, destFile)\<close> for each file; a source that is
  missing throws, and the files copied so far stay.
\<close>

fun copyFiles :: "dirent list \<Rightarrow> string list \<Rightarrow> tdir \<Rightarrow> bool \<times> tdir" where
  "copyFiles tree [] d = (True, d)"
| "copyFiles tree (file # rest) d =
     (case lookupPath (split (CHR ''/'') file) tree of
        None \<Rightarrow> (False, d)
      | Some (File n c) \<Rightarrow> copyFiles tree rest (put file c d)
      | Some (Dir n sub) \<Rightarrow> copyFiles tree rest (writeAll (allFiles (file @ ''/'') sub) d))"

record SaveOptions =
  o_description :: "string option"
  o_tags :: "string option"
  o_include :: "string option"
  o_exclude :: "string option"
  detectDeps :: bool

record SaveAnswers =
  shouldOverwrite :: "bool reply"
  addDeps :: "bool reply"
  descInput :: "string reply"

definition globList :: "string \<Rightarrow> string list" where
  "globList s = map trim (split (CHR '','') s)"

definition selectFiles :: "env \<Rightarrow> SaveOptions \<Rightarrow> dirent list \<Rightarrow> string list" where
  "selectFiles E opts tree =
     (if truthy (o_include opts) then
        fg E (globList (the (o_include opts)))
             (case o_exclude opts of Some ex \<Rightarrow> globList ex | None \<Rightarrow> []) tree
      else if truthy (o_exclude opts) then
        (let excluded = fg E (globList (the (o_exclude opts))) [] tree
         in filter (\<lambda>f. f \<notin> set excluded) (getFilesRecursive tree))
      else getFilesRecursive tree)"

text \<open>\<^verbatim>\<open>[...new Set(detectedDeps)]\<close> keeps the first occurrence of each dependency.\<close>

definition scanDependencies :: "env \<Rightarrow> dirent list \<Rightarrow> string list \<Rightarrow> string list" where
  "scanDependencies E tree fileList =
     rev (remdups (rev (concat (map
       (\<lambda>file. case lookupPath (split (CHR ''/'') file) tree of
                  Some (File n c) \<Rightarrow> detectDependencies E (textOf E c) file
                | _ \<Rightarrow> []) fileList))))"

definition parseTags :: "string option \<Rightarrow> string list" where
  "parseTags t = (if truthy t then filter (\<lambda>x. x \<noteq> []) (map trim (split (CHR '','') (the t))) else [])"

text \<open>From \<^verbatim>\<open>// Copy files\<close> to the end of the command.\<close>

definition writeTemplate ::
  "env \<Rightarrow> state \<Rightarrow> string \<Rightarrow> string \<Rightarrow> dirent list \<Rightarrow> string list \<Rightarrow> string \<Rightarrow> string list
   \<Rightarrow> string list \<Rightarrow> outcome \<times> state" where
  "writeTemplate E st n resolvedPath tree fileList desc tagList detectedDeps =
     (let templatePath = getTemplatePath E n
      in case ensureDir templatePath st of
           None \<Rightarrow> (Failed IOFailure, st)
         | Some st1 \<Rightarrow>
            (case dirs st1 templatePath of
               Some (Directory d) \<Rightarrow>
                 (let copied = copyFiles tree fileList d;
                      st2 = st1\<lparr>dirs := (dirs st1)(templatePath \<mapsto> Directory (snd copied))\<rparr>;
                      metadata = \<lparr>name = n, type = ''local'', version = ''1.0.0'',
                                  description = Some desc, createdAt = Some (now E),
                                  updatedAt = now E,
                                  source = \<lparr>origin = ''local'', source_path = resolvedPath\<rparr>,
                                  files = fileList, tags = Some tagList,
                                  dependencies =
                                    (if detectedDeps = [] then None
                                     else Some (map (\<lambda>dep. (dep, ''*'')) detectedDeps))\<rparr>;
                      template = \<lparr>path = ''templates/'' @ n, t_description = desc,
                                  t_tags = tagList, t_createdAt = now E, t_updatedAt = now E\<rparr>
                  in if \<not> fst copied then (Failed IOFailure, st2)
                     else (case saveTemplateMetadata E n metadata st2 of
                             None \<Rightarrow> (Failed IOFailure, st2)
                           | Some st3 \<Rightarrow> (Success, addTemplateToStore n (Local template) st3)))
             | _ \<Rightarrow> (Failed IOFailure, st1)))"

text \<open>From \<^verbatim>\<open>// Get files to include\<close> on: the two prompts, then the writes.\<close>

definition saveFiles ::
  "env \<Rightarrow> state \<Rightarrow> string \<Rightarrow> string \<Rightarrow> dirent list \<Rightarrow> SaveOptions \<Rightarrow> SaveAnswers
   \<Rightarrow> outcome \<times> state" where
  "saveFiles E st n resolvedPath tree opts ans =
     (let fileList = selectFiles E opts tree;
          found = (if detectDeps opts then scanDependencies E tree fileList else []);
          detectedDeps = (if addDeps ans = Answer True then found else []);
          tagList = parseTags (o_tags opts)
      in if fileList = [] then (Failed NoFiles, st)
         else if found \<noteq> [] \<and> addDeps ans = Cancel then (Cancelled, st)
         else if truthy (o_description opts) then
           writeTemplate E st n resolvedPath tree fileList (the (o_description opts))
             tagList detectedDeps
         else (case descInput ans of
                 Cancel \<Rightarrow> (Cancelled, st)
               | Answer desc \<Rightarrow>
                   writeTemplate E st n resolvedPath tree fileList desc tagList detectedDeps))"

definition saveCommand ::
  "env \<Rightarrow> state \<Rightarrow> string \<Rightarrow> string \<Rightarrow> fsnode \<Rightarrow> SaveOptions \<Rightarrow> SaveAnswers
   \<Rightarrow> outcome \<times> state" where
  "saveCommand E st n resolvedPath src opts ans =
     (if \<not> isInitialized st then (Failed NotInitialized, st)
      else case src of
        Absent \<Rightarrow> (Failed PathMissing, st)
      | IsFile c \<Rightarrow> (Failed NotADirectory, st)
      | IsDir tree \<Rightarrow>
          if templateExists st n then
            (if shouldOverwrite ans \<noteq> Answer True then (Cancelled, st)
             else saveFiles E (fs_remove (getTemplatePath E n) st) n resolvedPath tree opts ans)
          else saveFiles E st n resolvedPath tree opts ans)"

subsection \<open>import\<close>

record ImportOptions =
  o_name :: "string option"
  force :: bool

record ImportAnswers =
  overwriteAnswer :: "bool reply"
  newNameInputs :: "string reply list"

text \<open>The validator of the new-name prompt: \<^verbatim>\<open>/^[a-z0-9-_]+$/i\<close> on a non-empty value.\<close>

definition validName :: "string \<Rightarrow> bool" where
  "validName v = (v \<noteq> [] \<and> list_all (\<lambda>c. isWord c \<or> c = CHR ''-'') v)"

text \<open>
  \<^verbatim>\<open>p.text\<close> with a validator asks again until the value passes or the user cancels;
  the inputs are what the user types, in order.
\<close>

fun p_text :: "(string \<Rightarrow> bool) \<Rightarrow> string reply list \<Rightarrow> string reply" where
  "p_text validate [] = Cancel"
| "p_text validate (Cancel # rest) = Cancel"
| "p_text validate (Answer v # rest) = (if validate v then Answer v else p_text validate rest)"

text \<open>
  \<^verbatim>\<open>tar.extract\<close> into the fresh temporary directory: a later entry of the same name
  overwrites the earlier one. The directory is removed again on every path, so it is a
  value of the command, not part of the state.
\<close>

definition tar_extract :: "archive \<Rightarrow> tdir" where
  "tar_extract ar = writeAll ar []"

definition existsIn :: "tdir \<Rightarrow> string \<Rightarrow> bool" where
  "existsIn tmp p = list_ex (\<lambda>entry. fst entry = p \<or> prefix (p @ ''/'') (fst entry)) tmp"

definition topName :: "string \<Rightarrow> string" where
  "topName p = takeWhile (\<lambda>c. c \<noteq> CHR ''/'') p"

text \<open>What \<^verbatim>\<open>// Copy template files to destination\<close> leaves at \<^verbatim>\<open>templateDir\<close>.\<close>

definition copiedNode :: "tdir \<Rightarrow> node" where
  "copiedNode tmp =
     (if existsIn tmp ''template'' then
        (case map_of tmp ''template'' of
           Some c \<Rightarrow> RegularFile c
         | None \<Rightarrow>
             Directory (map (\<lambda>entry. (drop (length ''template/'') (fst entry), snd entry))
                            (filter (\<lambda>entry. prefix ''template/'' (fst entry)) tmp)))
      else Directory (filter (\<lambda>entry. topName (fst entry) \<noteq> ''brick.json'') tmp))"

definition installTemplate ::
  "env \<Rightarrow> state \<Rightarrow> string \<Rightarrow> tdir \<Rightarrow> BrickMetadata \<Rightarrow> string \<Rightarrow> outcome \<times> state" where
  "installTemplate E st fileName tmp metadata templateName =
     (let templateDir = getTemplatePath E templateName;
          st1 = (if pathExists st templateDir then fs_remove templateDir st else st);
          st2 = st1\<lparr>dirs := (dirs st1)(templateDir \<mapsto> copiedNode tmp)\<rparr>;
          updatedMetadata = metadata\<lparr>name := templateName, updatedAt := now E,
                              source := \<lparr>origin = ''local'',
                                         source_path = ''imported from '' @ fileName\<rparr>\<rparr>;
          storeEntry = \<lparr>path = templateDir,
                        t_description = (case description metadata of Some x \<Rightarrow> x | None \<Rightarrow> []),
                        t_tags = (case tags metadata of Some x \<Rightarrow> x | None \<Rightarrow> []),
                        t_createdAt = (if truthy (createdAt metadata) then the (createdAt metadata)
                                       else now E),
                        t_updatedAt = now E\<rparr>
      in case saveTemplateMetadata E templateName updatedMetadata st2 of
           None \<Rightarrow> (Failed IOFailure, st2)
         | Some st3 \<Rightarrow> (Success, addTemplateToStore templateName (Local storeEntry) st3))"

definition importCommand ::
  "env \<Rightarrow> state \<Rightarrow> string \<Rightarrow> archive option \<Rightarrow> ImportOptions \<Rightarrow> ImportAnswers
   \<Rightarrow> outcome \<times> state" where
  "importCommand E st fileName file opts ans =
     (if \<not> isInitialized st then (Failed NotInitialized, st)
      else case file of
        None \<Rightarrow> (Failed FileNotFound, st)
      | Some ar \<Rightarrow>
         (let tmp = tar_extract ar
          in if \<not> existsIn tmp ''brick.json'' then (Failed InvalidArchive, st)
             else (case map_of tmp ''brick.json'' of
                     Some (Json metadata) \<Rightarrow>
                       (let templateName =
                              (if truthy (o_name opts) then the (o_name opts) else name metadata)
                        in if templateExists st templateName \<and> \<not> force opts
                              \<and> overwriteAnswer ans \<noteq> Answer True then
                             (case p_text validName (newNameInputs ans) of
                                Cancel \<Rightarrow> (Cancelled, st)
                              | Answer newName \<Rightarrow>
                                  installTemplate E st fileName tmp metadata newName)
                           else installTemplate E st fileName tmp metadata templateName)
                   | _ \<Rightarrow> (Failed BadMetadata, st))))"

subsection \<open>Example inputs\<close>

text \<open>
  A runtime for the examples. Its regular-expression constructor knows the sources
  \<^verbatim>\<open>^$\<close> (the empty line) and \<^verbatim>\<open>TODO\<close> (a line containing TODO); its fast-glob
  answers the one call of the examples, in the order of the patterns.
\<close>

definition exampleRegExp :: "string \<Rightarrow> (string \<Rightarrow> bool) option" where
  "exampleRegExp src =
     (if src = ''^$'' then Some (\<lambda>s. s = [])
      else if src = ''TODO'' then Some (\<lambda>s. includes_str s ''TODO'')
      else None)"

definition exampleGlob :: "string list \<Rightarrow> string list \<Rightarrow> dirent list \<Rightarrow> string list" where
  "exampleGlob patterns ignore tree =
     (if patterns = [''z/*.ts'', ''a/*.ts''] then [''z/x.ts'', ''a/y.ts''] else [])"

definition exampleEnv :: env where
  "exampleEnv =
     \<lparr>CODEBRICK_DIR = ''/home/dev/.codebrick'',
      now = ''2026-02-01T09:00:00.000Z'',
      RegExp = exampleRegExp,
      JSON_stringify = (\<lambda>m. ''{}''),
      fg = exampleGlob,
      detectDependencies = (\<lambda>content file. []),
      pubspecName = (\<lambda>text. None),
      packageJsonName = (\<lambda>text. None),
      pyprojectName = (\<lambda>text. None)\<rparr>"

definition demoMetadata :: BrickMetadata where
  "demoMetadata =
     \<lparr>name = ''demo'', type = ''local'', version = ''1.0.0'', description = Some ''A demo'',
      createdAt = Some ''2026-01-11T10:30:00.000Z'', updatedAt = ''2026-01-11T10:30:00.000Z'',
      source = \<lparr>origin = ''local'', source_path = ''/work/demo''\<rparr>,
      files = [''a.ts'', ''notes.txt''], tags = Some [''ts''], dependencies = None\<rparr>"

definition demoSource :: string where
  "demoSource = ''import { b } from '' @ [dq] @ ''./b'' @ [dq] @ '';\<newline>export const a = b;''"

definition demoDir :: tdir where
  "demoDir =
     [(''a.ts'', Text demoSource),
      (''notes.txt'', Text ''keep\<newline>TODO drop\<newline>end''),
      (''brick.json'', Json demoMetadata)]"

definition demoTemplate :: LocalTemplate where
  "demoTemplate =
     \<lparr>path = ''templates/demo'', t_description = ''A demo'', t_tags = [''ts''],
      t_createdAt = ''2026-01-11T10:30:00.000Z'', t_updatedAt = ''2026-01-11T10:30:00.000Z''\<rparr>"

definition demoState :: state where
  "demoState =
     \<lparr>initialized = True,
      store = [(''demo'', Local demoTemplate)],
      dirs = (\<lambda>p. if p = ''/home/dev/.codebrick/templates/demo'' then Some (Directory demoDir)
                   else None)\<rparr>"

definition demoArchive :: archive where
  "demoArchive = createBrickArchive demoDir demoMetadata"

text \<open>A project directory to save from.\<close>

definition projectTree :: "dirent list" where
  "projectTree =
     [Dir ''z'' [File ''x.ts'' (Text ''export const x = 1;'')],
      Dir ''a'' [File ''y.ts'' (Text ''export const y = 2;'')]]"

definition plainSave :: SaveOptions where
  "plainSave = \<lparr>o_description = None, o_tags = None, o_include = None, o_exclude = None,
                detectDeps = False\<rparr>"

text \<open>A runtime whose dependency scan finds one package in every file.\<close>

definition exampleDepsEnv :: env where
  "exampleDepsEnv = exampleEnv\<lparr>detectDependencies := (\<lambda>content file. [''lodash''])\<rparr>"

section \<open>Properties\<close>

subsection \<open>Lines of a text\<close>

lemma split_not_Nil: "split sep s \<noteq> []"
  by (induction s) (auto split: list.splits)

lemma split_Cons [simp]:
  "split sep (c # cs) =
     (if c = sep then [] # split sep cs
      else (c # hd (split sep cs)) # tl (split sep cs))"
  using split_not_Nil [of sep cs] by (cases "split sep cs") auto

declare split.simps(2) [simp del]

lemma split_hd_tl: "hd (split sep s) # tl (split sep s) = split sep s"
  using split_not_Nil [of sep s] by simp

lemma join_Cons: "ls \<noteq> [] \<Longrightarrow> join sep (l # ls) = l @ sep @ join sep ls"
  by (cases ls) auto

lemma join_split: "join [sep] (split sep s) = s"
proof (induction s)
  case Nil
  show ?case by simp
next
  case (Cons c cs)
  obtain l ls where sp: "split sep cs = l # ls"
    using split_not_Nil [of sep cs] by (cases "split sep cs") auto
  show ?case
  proof (cases "c = sep")
    case True
    then show ?thesis using Cons by (simp add: join_Cons split_not_Nil)
  next
    case False
    then show ?thesis using Cons sp by (cases ls) auto
  qed
qed

lemma split_no_sep: "l \<in> set (split sep s) \<Longrightarrow> sep \<notin> set l"
proof (induction s arbitrary: l)
  case Nil
  then show ?case by simp
next
  case (Cons c cs)
  obtain h t where sp: "split sep cs = h # t"
    using split_not_Nil [of sep cs] by (cases "split sep cs") auto
  show ?case
  proof (cases "c = sep")
    case True
    with Cons show ?thesis by auto
  next
    case False
    with Cons.prems sp have "l = c # h \<or> l \<in> set t" by auto
    then show ?thesis
    proof
      assume "l = c # h"
      moreover have "sep \<notin> set h" using Cons.IH [of h] sp by simp
      ultimately show ?thesis using False by auto
    next
      assume "l \<in> set t"
      then show ?thesis using Cons.IH [of l] sp by simp
    qed
  qed
qed

lemma split_line_sep:
  "sep \<notin> set l \<Longrightarrow> split sep (l @ sep # s) = l # split sep s"
  by (induction l) auto

lemma split_single: "sep \<notin> set l \<Longrightarrow> split sep l = [l]"
  by (induction l) auto

lemma split_join:
  "ls \<noteq> [] \<Longrightarrow> \<forall>l \<in> set ls. sep \<notin> set l \<Longrightarrow> split sep (join [sep] ls) = ls"
proof (induction ls rule: induct_list012)
  case 1
  then show ?case by simp
next
  case (2 x)
  then show ?case by (simp add: split_single)
next
  case (3 x y zs)
  then show ?case by (simp add: split_line_sep)
qed

lemma collapse_lines:
  "\<exists>h t t'. split nl s = h # t \<and> split nl (collapse s) = h # t' \<and> set t' \<subseteq> set t"
proof (induction s rule: collapse.induct)
  case (1 a b c cs)
  let ?rest = "b # c # cs"
  show ?case
  proof (cases "a = nl \<and> b = nl \<and> c = nl")
    case True
    with 1 obtain h t t' where
      r: "split nl ?rest = h # t" "split nl (collapse ?rest) = h # t'" "set t' \<subseteq> set t"
      by blast
    from True r(1) have h: "h = []" by simp
    have "split nl (a # ?rest) = [] # (h # t)" using True r(1) by simp
    moreover have "split nl (collapse (a # ?rest)) = [] # t'" using True r(2) h by simp
    moreover have "set t' \<subseteq> set (h # t)" using r(3) by auto
    ultimately show ?thesis by blast
  next
    case False
    with 1 obtain h t t' where
      r: "split nl ?rest = h # t" "split nl (collapse ?rest) = h # t'" "set t' \<subseteq> set t"
      by blast
    have c: "collapse (a # ?rest) = a # collapse ?rest" using False by simp
    show ?thesis
    proof (cases "a = nl")
      case True
      have "split nl (a # ?rest) = [] # (h # t)" using True r(1) by simp
      moreover have "split nl (collapse (a # ?rest)) = [] # (h # t')"
        unfolding c using True r(2) by simp
      moreover have "set (h # t') \<subseteq> set (h # t)" using r(3) by auto
      ultimately show ?thesis by blast
    next
      case an: False
      have "split nl (a # ?rest) = (a # h) # t" using an r(1) by simp
      moreover have "split nl (collapse (a # ?rest)) = (a # h) # t'"
        unfolding c using an r(2) by simp
      ultimately show ?thesis using r(3) by blast
    qed
  qed
next
  show "\<exists>h t t'. split nl [] = h # t \<and> split nl (collapse []) = h # t' \<and> set t' \<subseteq> set t"
    by simp
next
  fix v
  have "split nl [v] = hd (split nl [v]) # tl (split nl [v])" by (simp only: split_hd_tl)
  then show "\<exists>h t t'. split nl [v] = h # t \<and> split nl (collapse [v]) = h # t' \<and> set t' \<subseteq> set t"
    by (metis collapse.simps(3) subset_refl)
next
  fix v w
  have "split nl [v, w] = hd (split nl [v, w]) # tl (split nl [v, w])" by (simp only: split_hd_tl)
  then show "\<exists>h t t'. split nl [v, w] = h # t \<and> split nl (collapse [v, w]) = h # t'
                \<and> set t' \<subseteq> set t"
    by (metis collapse.simps(4) subset_refl)
qed

lemma collapse_lines_subset: "set (split nl (collapse s)) \<subseteq> set (split nl s)"
  using collapse_lines [of s] by auto


lemma collapse_front: "\<exists>zs. collapse (b # c # cs) = b # c # zs"
proof (induction cs arbitrary: b c)
  case Nil
  show ?case by simp
next
  case (Cons x xs)
  obtain zs where z: "collapse (c # x # xs) = c # x # zs"
    using Cons [of c x] by blast
  show ?case
  proof (cases "b = nl \<and> c = nl \<and> x = nl")
    case True
    then show ?thesis using z by simp
  next
    case False
    show ?thesis by (simp add: False z)
  qed
qed

lemma collapse_idem: "collapse (collapse s) = collapse s"
proof (induction s rule: collapse.induct)
  case (1 a b c cs)
  obtain zs where z: "collapse (b # c # cs) = b # c # zs"
    using collapse_front by blast
  show ?case
  proof (cases "a = nl \<and> b = nl \<and> c = nl")
    case True
    then show ?thesis using 1 by simp
  next
    case False
    have "collapse (a # b # c # cs) = a # b # c # zs" by (simp add: False z)
    moreover have "collapse (a # b # c # zs) = a # collapse (b # c # zs)" by (simp add: False)
    moreover have "collapse (b # c # zs) = b # c # zs" using 1(2) [OF False] z by simp
    ultimately show ?thesis by simp
  qed
qed simp_all

lemma cleanLines_keep_all:
  "\<forall>l \<in> set ls. f l = Inr False \<Longrightarrow> cleanLines f ls (k, n) = Inr (k @ ls, n)"
  by (induction ls arbitrary: k) auto

lemma cleanLines_result:
  "cleanLines f ls (k, n) = Inr (k', n') \<Longrightarrow>
     \<exists>kept. k' = k @ kept \<and> set kept \<subseteq> set ls \<and> (\<forall>l \<in> set kept. f l = Inr False)
            \<and> n' + length kept = n + length ls"
proof (induction ls arbitrary: k n)
  case Nil
  then show ?case by simp
next
  case (Cons l ls)
  show ?case
  proof (cases "f l")
    case (Inl e)
    with Cons.prems show ?thesis by simp
  next
    case (Inr b)
    show ?thesis
    proof (cases b)
      case True
      with Inr Cons.prems have "cleanLines f ls (k, Suc n) = Inr (k', n')" by simp
      from Cons.IH [OF this] show ?thesis by auto
    next
      case False
      with Inr Cons.prems have "cleanLines f ls (k @ [l], n) = Inr (k', n')" by simp
      from Cons.IH [OF this] obtain kept where
        "k' = (k @ [l]) @ kept" "set kept \<subseteq> set ls" "\<forall>x \<in> set kept. f x = Inr False"
        "n' + length kept = n + length ls" by blast
      then have "k' = k @ (l # kept) \<and> set (l # kept) \<subseteq> set (l # ls)
                 \<and> (\<forall>x \<in> set (l # kept). f x = Inr False)
                 \<and> n' + length (l # kept) = n + length (l # ls)"
        using Inr False by auto
      then show ?thesis by blast
    qed
  qed
qed

subsection \<open>Cleaning a cleaned text\<close>

text \<open>
  C10, as amended. When \<open>cleanFileContent\<close> returns, applying it with the same
  arguments to the text it returned gives that text back with \<open>removedCount = 0\<close>,
  provided the first application kept at least one line or the empty line is itself
  a line that is kept. (When every line was removed the result is the empty text, whose
  one empty line is classified afresh by the second application.)
\<close>

theorem cleanFileContent_second_pass:
  assumes first: "cleanFileContent E content ext customPattern projectName keepExt = Inr r"
    and some: "removedCount r < length (split nl content)
               \<or> shouldRemove E ext customPattern projectName keepExt [] = Inr False"
  shows "cleanFileContent E (cleaned r) ext customPattern projectName keepExt
           = Inr \<lparr>cleaned = cleaned r, removedCount = 0\<rparr>"
proof -
  let ?f = "shouldRemove E ext customPattern projectName keepExt"
  from first obtain kept n where
    cl: "cleanLines ?f (split nl content) ([], 0) = Inr (kept, n)"
    and r: "r = \<lparr>cleaned = collapse (join [nl] kept), removedCount = n\<rparr>"
    by (auto simp: cleanFileContent_def split: sum.splits prod.splits)
  from cleanLines_result [OF cl] have
    sub: "set kept \<subseteq> set (split nl content)"
    and keep: "\<forall>l \<in> set kept. ?f l = Inr False"
    and count: "n + length kept = length (split nl content)" by auto
  have lines: "\<forall>l \<in> set (split nl (cleaned r)). ?f l = Inr False"
  proof (cases "kept = []")
    case True
    with count r some have "?f [] = Inr False" by simp
    then show ?thesis using True r by simp
  next
    case False
    have "\<forall>l \<in> set kept. nl \<notin> set l" using sub split_no_sep by blast
    then have "split nl (join [nl] kept) = kept" using False by (rule split_join [rotated])
    then have "set (split nl (cleaned r)) \<subseteq> set kept"
      using collapse_lines_subset [of "join [nl] kept"] r by simp
    then show ?thesis using keep by blast
  qed
  have "cleanLines ?f (split nl (cleaned r)) ([], 0) = Inr ([] @ split nl (cleaned r), 0)"
    using lines by (rule cleanLines_keep_all)
  then show ?thesis
    using r by (simp add: cleanFileContent_def join_split collapse_idem)
qed

theorem cleanFileContent_second_pass_witness:
  "cleanFileContent exampleEnv ''keep\<newline>TODO drop\<newline>end'' ''.txt'' (Some ''TODO'') None True
     = Inr \<lparr>cleaned = ''keep\<newline>end'', removedCount = 1\<rparr>
   \<and> cleanFileContent exampleEnv ''keep\<newline>end'' ''.txt'' (Some ''TODO'') None True
     = Inr \<lparr>cleaned = ''keep\<newline>end'', removedCount = 0\<rparr>"
proof -
  have first: "cleanFileContent exampleEnv ''keep\<newline>TODO drop\<newline>end'' ''.txt''
                 (Some ''TODO'') None True
               = Inr \<lparr>cleaned = ''keep\<newline>end'', removedCount = 1\<rparr>"
    by code_simp
  have "(1::nat) < length (split nl ''keep\<newline>TODO drop\<newline>end'')"
    by code_simp
  then have "removedCount \<lparr>cleaned = ''keep\<newline>end'', removedCount = 1\<rparr>
               < length (split nl ''keep\<newline>TODO drop\<newline>end'')
             \<or> shouldRemove exampleEnv ''.txt'' (Some ''TODO'') None True [] = Inr False"
    by simp
  from cleanFileContent_second_pass [OF first this] show ?thesis
    using first by simp
qed

text \<open>
  C10 as stated fails: on an empty file with the custom pattern \<^verbatim>\<open>^$\<close> the cleaned
  text is the empty text and one line is counted as removed; the same call on that
  output counts one removed line again.
\<close>

theorem cleanFileContent_empty_line_counterexample:
  "cleanFileContent exampleEnv [] ''.py'' (Some ''^$'') None True
     = Inr \<lparr>cleaned = [], removedCount = 1\<rparr>
   \<and> cleanFileContent exampleEnv (cleaned \<lparr>cleaned = [], removedCount = 1\<rparr>) ''.py''
         (Some ''^$'') None True
     \<noteq> Inr \<lparr>cleaned = [], removedCount = 0\<rparr>"
proof -
  have "cleanFileContent exampleEnv [] ''.py'' (Some ''^$'') None True
          = Inr \<lparr>cleaned = [], removedCount = 1\<rparr>"
    by code_simp
  then show ?thesis by simp
qed

subsection \<open>The storage layer\<close>

lemma map_of_put: "map_of (put k v d) = (map_of d)(k \<mapsto> v)"
  by (induction d) (auto simp: fun_eq_iff)

lemma load_after_save:
  "saveTemplateMetadata E n m st = Some st' \<Longrightarrow> loadTemplateMetadata E st' n = Some m"
  by (auto simp: saveTemplateMetadata_def loadTemplateMetadata_def map_of_put
           split: option.splits node.splits)

subsection \<open>clean\<close>

text \<open>
  C9. With \<^verbatim>\<open>dryRun\<close> set, \<^verbatim>\<open>cleanCommand\<close> writes nothing, however it ends and
  however many imports it finds: the state after the command, storage directories and
  metadata files included, is the state before it.
\<close>

theorem cleanCommand_dryRun_no_write:
  "dryRun opts \<Longrightarrow> snd (cleanCommand E st nameOrIndex opts confirmed) = st"
  by (simp add: cleanCommand_def Let_def split: option.splits Template.splits node.splits)

theorem cleanCommand_dryRun_no_write_witness:
  "dryRun \<lparr>pattern = Some ''TODO'', dryRun = True, keepExternal = None\<rparr>
   \<and> fst (cleanCommand exampleEnv demoState ''demo''
           \<lparr>pattern = Some ''TODO'', dryRun = True, keepExternal = None\<rparr> (Answer True)) = Success
   \<and> snd (cleanCommand exampleEnv demoState ''demo''
           \<lparr>pattern = Some ''TODO'', dryRun = True, keepExternal = None\<rparr> (Answer True)) = demoState"
proof -
  have "fst (cleanCommand exampleEnv demoState ''demo''
           \<lparr>pattern = Some ''TODO'', dryRun = True, keepExternal = None\<rparr> (Answer True)) = Success"
    by code_simp
  then show ?thesis
    using cleanCommand_dryRun_no_write [of "\<lparr>pattern = Some ''TODO'', dryRun = True, keepExternal = None\<rparr>"
        exampleEnv demoState "''demo''" "Answer True"]
    by simp
qed

text \<open>
  C8. A run of \<^verbatim>\<open>cleanCommand\<close> that completes leaves the metadata of the template
  as it was loaded before the run, up to \<^verbatim>\<open>updatedAt\<close>: the manifest \<^verbatim>\<open>files\<close>,
  \<^verbatim>\<open>createdAt\<close> and every other field are the same.
\<close>

theorem cleanCommand_metadata_frame:
  assumes run: "cleanCommand E st nameOrIndex opts confirmed = (Success, st')"
    and res: "resolveTemplateName st nameOrIndex = Some n"
    and md: "loadTemplateMetadata E st n = Some metadata"
  shows "\<exists>u. loadTemplateMetadata E st' n = Some (metadata\<lparr>updatedAt := u\<rparr>)"
proof (cases "st' = st")
  case True
  have "metadata\<lparr>updatedAt := updatedAt metadata\<rparr> = metadata" by simp
  then show ?thesis using True md by metis
next
  case False
  with run res md obtain st1 where
    "saveTemplateMetadata E n (metadata\<lparr>updatedAt := now E\<rparr>) st1 = Some st'"
    by (auto simp: cleanCommand_def Let_def
             split: option.splits Template.splits node.splits if_splits)
  from load_after_save [OF this] show ?thesis by blast
qed

theorem cleanCommand_metadata_frame_witness:
  "fst (cleanCommand exampleEnv demoState ''demo''
          \<lparr>pattern = None, dryRun = False, keepExternal = None\<rparr> (Answer True)) = Success
   \<and> (\<exists>u. loadTemplateMetadata exampleEnv
              (snd (cleanCommand exampleEnv demoState ''demo''
                 \<lparr>pattern = None, dryRun = False, keepExternal = None\<rparr> (Answer True)))
              ''demo'' = Some (demoMetadata\<lparr>updatedAt := u\<rparr>))
   \<and> (case dirs (snd (cleanCommand exampleEnv demoState ''demo''
                 \<lparr>pattern = None, dryRun = False, keepExternal = None\<rparr> (Answer True)))
              ''/home/dev/.codebrick/templates/demo'' of
         Some (Directory d) \<Rightarrow> map_of d ''a.ts'' | _ \<Rightarrow> None)
       = Some (Text ''export const a = b;'')"
proof -
  let ?run = "cleanCommand exampleEnv demoState ''demo''
          \<lparr>pattern = None, dryRun = False, keepExternal = None\<rparr> (Answer True)"
  have ok: "fst ?run = Success" by code_simp
  then have run: "?run = (Success, snd ?run)" by (simp add: prod_eq_iff)
  have res: "resolveTemplateName demoState ''demo'' = Some ''demo''" by code_simp
  have md: "loadTemplateMetadata exampleEnv demoState ''demo'' = Some demoMetadata" by code_simp
  have written: "(case dirs (snd ?run) ''/home/dev/.codebrick/templates/demo'' of
         Some (Directory d) \<Rightarrow> map_of d ''a.ts'' | _ \<Rightarrow> None)
       = Some (Text ''export const a = b;'')"
    by code_simp
  from cleanCommand_metadata_frame [OF run res md] have
    "\<exists>u. loadTemplateMetadata exampleEnv (snd ?run) ''demo''
           = Some (demoMetadata\<lparr>updatedAt := u\<rparr>)" .
  with ok written show ?thesis by (intro conjI)
qed

subsection \<open>import and export\<close>

text \<open>
  C7. When the extracted archive has no \<^verbatim>\<open>brick.json\<close> at its root,
  \<^verbatim>\<open>importCommand\<close> fails as an invalid archive and the state (registry, metadata,
  storage directories) is the one before the command.
\<close>

theorem importCommand_missing_metadata:
  "isInitialized st \<Longrightarrow> \<not> existsIn (tar_extract ar) ''brick.json''
   \<Longrightarrow> importCommand E st fileName (Some ar) opts ans = (Failed InvalidArchive, st)"
  by (simp add: importCommand_def)

theorem importCommand_missing_metadata_witness:
  "isInitialized demoState
   \<and> \<not> existsIn (tar_extract [(''template/a.ts'', Text ''export const a = 1;'')]) ''brick.json''
   \<and> importCommand exampleEnv demoState ''broken.brick''
         (Some [(''template/a.ts'', Text ''export const a = 1;'')])
         \<lparr>o_name = None, force = True\<rparr> \<lparr>overwriteAnswer = Answer True, newNameInputs = []\<rparr>
       = (Failed InvalidArchive, demoState)"
proof -
  have i: "isInitialized demoState" by code_simp
  have n: "\<not> existsIn (tar_extract [(''template/a.ts'', Text ''export const a = 1;'')]) ''brick.json''"
    by code_simp
  from importCommand_missing_metadata [OF i n] i n show ?thesis by simp
qed

text \<open>
  C6. For a local template whose storage directory and metadata exist,
  \<^verbatim>\<open>exportCommand\<close> produces an archive with exactly one entry named
  \<^verbatim>\<open>brick.json\<close>, holding the loaded metadata; its other entries are the files of the
  storage directory other than the top-level \<^verbatim>\<open>brick.json\<close>, each under
  \<^verbatim>\<open>template/\<close>, with its content.
\<close>

theorem exportCommand_archive_shape:
  assumes "isInitialized st"
    and "resolveTemplateName st nameOrIndex = Some n"
    and "getTemplate st n = Some (Local t)"
    and "dirs st (getTemplatePath E n) = Some (Directory d)"
    and "loadTemplateMetadata E st n = Some metadata"
  shows "\<exists>ar. exportCommand E st nameOrIndex = (Success, Some ar)
           \<and> filter (\<lambda>entry. fst entry = ''brick.json'') ar = [(''brick.json'', Json metadata)]
           \<and> filter (\<lambda>entry. fst entry \<noteq> ''brick.json'') ar
               = map (\<lambda>entry. (''template/'' @ fst entry, snd entry))
                     (filter (\<lambda>entry. fst entry \<noteq> ''brick.json'') d)"
proof -
  have ex: "exportCommand E st nameOrIndex = (Success, Some (createBrickArchive d metadata))"
    using assms by (simp add: exportCommand_def pathExists_def)
  have "filter (\<lambda>entry. fst entry = ''brick.json'') (createBrickArchive d metadata)
          = [(''brick.json'', Json metadata)]"
    by (simp add: createBrickArchive_def filter_map o_def)
  moreover have "filter (\<lambda>entry. fst entry \<noteq> ''brick.json'') (createBrickArchive d metadata)
          = map (\<lambda>entry. (''template/'' @ fst entry, snd entry))
                (filter (\<lambda>entry. fst entry \<noteq> ''brick.json'') d)"
    by (simp add: createBrickArchive_def filter_map o_def)
  ultimately show ?thesis using ex by simp
qed

theorem exportCommand_archive_shape_witness:
  "exportCommand exampleEnv demoState ''1'' = (Success, Some demoArchive)
   \<and> filter (\<lambda>entry. fst entry = ''brick.json'') demoArchive = [(''brick.json'', Json demoMetadata)]
   \<and> filter (\<lambda>entry. fst entry \<noteq> ''brick.json'') demoArchive
       = [(''template/a.ts'', Text demoSource),
          (''template/notes.txt'', Text ''keep\<newline>TODO drop\<newline>end'')]"
proof -
  have i: "isInitialized demoState" by code_simp
  have res: "resolveTemplateName demoState ''1'' = Some ''demo''" by code_simp
  have loc: "getTemplate demoState ''demo'' = Some (Local demoTemplate)" by code_simp
  have dir: "dirs demoState (getTemplatePath exampleEnv ''demo'') = Some (Directory demoDir)"
    by code_simp
  have md: "loadTemplateMetadata exampleEnv demoState ''demo'' = Some demoMetadata" by code_simp
  have kept: "map (\<lambda>entry. (''template/'' @ fst entry, snd entry))
                (filter (\<lambda>entry. fst entry \<noteq> ''brick.json'') demoDir)
              = [(''template/a.ts'', Text demoSource),
                 (''template/notes.txt'', Text ''keep\<newline>TODO drop\<newline>end'')]"
    by code_simp
  have ex: "exportCommand exampleEnv demoState ''1'' = (Success, Some demoArchive)"
    by code_simp
  from exportCommand_archive_shape [OF i res loc dir md] ex kept show ?thesis by simp
qed

lemma put_fresh: "k \<notin> fst ` set d \<Longrightarrow> put k v d = d @ [(k, v)]"
  by (induction d) auto

lemma writeAll_distinct:
  "distinct (map fst (d @ entries)) \<Longrightarrow> writeAll entries d = d @ entries"
proof (induction entries arbitrary: d)
  case Nil
  show ?case by (simp add: writeAll_def)
next
  case (Cons e es)
  have fresh: "fst e \<notin> fst ` set d" using Cons.prems by auto
  have "distinct (map fst ((d @ [e]) @ es))" using Cons.prems by simp
  from Cons.IH [OF this] have "writeAll es (d @ [e]) = (d @ [e]) @ es" .
  moreover have "put (fst e) (snd e) d = d @ [e]" using put_fresh [OF fresh] by simp
  ultimately show ?case by (simp add: writeAll_def)
qed

lemma archive_names_distinct:
  assumes "distinct (map fst d)"
  shows "distinct (map fst (createBrickArchive d metadata))"
proof -
  let ?kept = "filter (\<lambda>entry. fst entry \<noteq> ''brick.json'') d"
  have "distinct (map fst ?kept)" using assms by (simp add: distinct_map_filter)
  then have "distinct (map ((@) ''template/'') (map fst ?kept))"
    by (simp add: distinct_map inj_on_def)
  moreover have "map fst (createBrickArchive d metadata)
                   = map ((@) ''template/'') (map fst ?kept) @ [''brick.json'']"
    by (simp add: createBrickArchive_def o_def)
  ultimately show ?thesis by auto
qed

lemma extract_archive:
  "distinct (map fst d) \<Longrightarrow> tar_extract (createBrickArchive d metadata) = createBrickArchive d metadata"
  using writeAll_distinct [of "[]" "createBrickArchive d metadata"] archive_names_distinct
  by (simp add: tar_extract_def)

lemma archive_has_metadata:
  "existsIn (createBrickArchive d metadata) ''brick.json''"
  by (simp add: existsIn_def createBrickArchive_def)

lemma map_of_append_last: "k \<notin> fst ` set xs \<Longrightarrow> map_of (xs @ [(k, v)]) k = Some v"
  by (induction xs) auto

lemma archive_metadata:
  "map_of (createBrickArchive d metadata) ''brick.json'' = Some (Json metadata)"
  unfolding createBrickArchive_def by (rule map_of_append_last) auto

lemma map_of_kept:
  "p \<noteq> k \<Longrightarrow> map_of (filter (\<lambda>entry. fst entry \<noteq> k) d) p = map_of d p"
  by (induction d) auto

lemma archive_copiedNode:
  "copiedNode (createBrickArchive d metadata)
     = Directory (filter (\<lambda>entry. fst entry \<noteq> ''brick.json'') d)"
proof -
  let ?kept = "filter (\<lambda>entry. fst entry \<noteq> ''brick.json'') d"
  let ?ar = "createBrickArchive d metadata"
  have notfile: "map_of ?ar ''template'' = None"
    by (auto simp: createBrickArchive_def map_of_eq_None_iff)
  have pre: "filter (\<lambda>entry. prefix ''template/'' (fst entry)) ?ar
               = map (\<lambda>entry. (''template/'' @ fst entry, snd entry)) ?kept"
    by (simp add: createBrickArchive_def filter_map o_def)
  show ?thesis
  proof (cases "existsIn ?ar ''template''")
    case True
    then show ?thesis by (simp add: copiedNode_def notfile pre o_def)
  next
    case False
    then have "?kept = []"
      by (auto simp: existsIn_def createBrickArchive_def list_ex_iff filter_empty_conv)
    then have "?ar = [(''brick.json'', Json metadata)]"
      by (simp add: createBrickArchive_def)
    then show ?thesis using False \<open>?kept = []\<close> by (simp add: copiedNode_def topName_def)
  qed
qed

lemma installTemplate_directory:
  assumes "copiedNode tmp = Directory d2"
  shows "\<exists>st'. installTemplate E st fileName tmp metadata tn = (Success, st')
           \<and> loadTemplateMetadata E st' tn
               = Some (metadata\<lparr>name := tn, updatedAt := now E,
                     source := \<lparr>origin = ''local'', source_path = ''imported from '' @ fileName\<rparr>\<rparr>)
           \<and> dirs st' (getTemplatePath E tn)
               = Some (Directory (put ''brick.json''
                    (Json (metadata\<lparr>name := tn, updatedAt := now E,
                     source := \<lparr>origin = ''local'', source_path = ''imported from '' @ fileName\<rparr>\<rparr>))
                    d2))"
proof -
  let ?dir = "getTemplatePath E tn"
  let ?um = "metadata\<lparr>name := tn, updatedAt := now E,
               source := \<lparr>origin = ''local'', source_path = ''imported from '' @ fileName\<rparr>\<rparr>"
  define st1 where "st1 = (if pathExists st ?dir then fs_remove ?dir st else st)"
  define st2 where "st2 = st1\<lparr>dirs := (dirs st1)(?dir \<mapsto> copiedNode tmp)\<rparr>"
  define st3 where "st3 = st2\<lparr>dirs := (dirs st2)(?dir \<mapsto> Directory (put ''brick.json'' (Json ?um) d2))\<rparr>"
  have d2: "dirs st2 ?dir = Some (Directory d2)" using assms by (simp add: st2_def)
  have sv: "saveTemplateMetadata E tn ?um st2 = Some st3"
    by (simp add: saveTemplateMetadata_def d2 st3_def)
  define entry where "entry =
     \<lparr>path = ?dir,
      t_description = (case description metadata of Some x \<Rightarrow> x | None \<Rightarrow> []),
      t_tags = (case tags metadata of Some x \<Rightarrow> x | None \<Rightarrow> []),
      t_createdAt = (if truthy (createdAt metadata) then the (createdAt metadata) else now E),
      t_updatedAt = now E\<rparr>"
  have "installTemplate E st fileName tmp metadata tn
          = (case saveTemplateMetadata E tn ?um st2 of
               None \<Rightarrow> (Failed IOFailure, st2)
             | Some s \<Rightarrow> (Success, addTemplateToStore tn (Local entry) s))"
    unfolding installTemplate_def Let_def st2_def st1_def entry_def ..
  also have "\<dots> = (Success, addTemplateToStore tn (Local entry) st3)"
    by (simp only: sv option.case)
  finally have inst: "installTemplate E st fileName tmp metadata tn
             = (Success, addTemplateToStore tn (Local entry) st3)" .
  have same: "dirs (addTemplateToStore tn (Local entry) st3) = dirs st3"
    by (simp add: addTemplateToStore_def)
  have d3: "dirs st3 ?dir = Some (Directory (put ''brick.json'' (Json ?um) d2))"
    by (simp add: st3_def)
  have "loadTemplateMetadata E (addTemplateToStore tn (Local entry) st3) tn = Some ?um"
    unfolding loadTemplateMetadata_def same d3 by (simp add: map_of_put)
  moreover have "dirs (addTemplateToStore tn (Local entry) st3) ?dir
                   = Some (Directory (put ''brick.json'' (Json ?um) d2))"
    unfolding same d3 ..
  ultimately show ?thesis using inst by blast
qed

lemma validName_not_empty: "validName v \<Longrightarrow> truthy (Some v)"
  by (simp add: validName_def)

text \<open>
  C2. Exporting a local template and importing the archive under a fresh name (a valid
  template name that the registry does not hold) succeeds; the new template has the
  \<^verbatim>\<open>files\<close> manifest of the original, and every path other than the top-level
  \<^verbatim>\<open>brick.json\<close> holds in the new storage directory exactly what it holds in the
  original one.
\<close>

theorem export_import_round_trip:
  assumes init: "isInitialized st"
    and res: "resolveTemplateName st nameOrIndex = Some n"
    and loc: "getTemplate st n = Some (Local t)"
    and dir: "dirs st (getTemplatePath E n) = Some (Directory d)"
    and wf: "distinct (map fst d)"
    and md: "loadTemplateMetadata E st n = Some metadata"
    and valid: "validName newName"
    and fresh: "\<not> templateExists st newName"
  shows "\<exists>ar st' metadata' d'.
           exportCommand E st nameOrIndex = (Success, Some ar)
         \<and> importCommand E st fileName (Some ar) \<lparr>o_name = Some newName, force = f\<rparr> ans
             = (Success, st')
         \<and> loadTemplateMetadata E st' newName = Some metadata'
         \<and> files metadata' = files metadata
         \<and> dirs st' (getTemplatePath E newName) = Some (Directory d')
         \<and> (\<forall>p. p \<noteq> ''brick.json'' \<longrightarrow> map_of d' p = map_of d p)"
proof -
  let ?ar = "createBrickArchive d metadata"
  let ?kept = "filter (\<lambda>entry. fst entry \<noteq> ''brick.json'') d"
  let ?dir = "getTemplatePath E newName"
  let ?um = "metadata\<lparr>name := newName, updatedAt := now E,
               source := \<lparr>origin = ''local'', source_path = ''imported from '' @ fileName\<rparr>\<rparr>"
  have ex: "exportCommand E st nameOrIndex = (Success, Some ?ar)"
    using init res loc dir md by (simp add: exportCommand_def pathExists_def)
  have tmp: "tar_extract ?ar = ?ar" using wf by (rule extract_archive)
  have imp: "importCommand E st fileName (Some ?ar) \<lparr>o_name = Some newName, force = f\<rparr> ans
               = installTemplate E st fileName ?ar metadata newName"
    using init fresh validName_not_empty [OF valid]
    by (simp add: importCommand_def tmp archive_has_metadata archive_metadata)
  from installTemplate_directory [OF archive_copiedNode, where E = E and st = st
      and fileName = fileName and metadata = metadata and tn = newName]
  obtain st' where
    inst: "installTemplate E st fileName ?ar metadata newName = (Success, st')"
    and load: "loadTemplateMetadata E st' newName = Some ?um"
    and dir': "dirs st' ?dir = Some (Directory (put ''brick.json'' (Json ?um) ?kept))"
    by blast
  have same: "\<forall>p. p \<noteq> ''brick.json''
          \<longrightarrow> map_of (put ''brick.json'' (Json ?um) ?kept) p = map_of d p"
    by (simp add: map_of_put map_of_kept)
  show ?thesis
  proof (intro exI conjI)
    show "exportCommand E st nameOrIndex = (Success, Some ?ar)" by (rule ex)
    show "importCommand E st fileName (Some ?ar) \<lparr>o_name = Some newName, force = f\<rparr> ans
            = (Success, st')"
      by (simp only: imp inst)
    show "loadTemplateMetadata E st' newName = Some ?um" by (rule load)
    show "files ?um = files metadata" by simp
    show "dirs st' ?dir = Some (Directory (put ''brick.json'' (Json ?um) ?kept))" by (rule dir')
    show "\<forall>p. p \<noteq> ''brick.json''
          \<longrightarrow> map_of (put ''brick.json'' (Json ?um) ?kept) p = map_of d p"
      by (rule same)
  qed
qed

theorem export_import_round_trip_witness:
  "\<exists>st' metadata' d'.
       exportCommand exampleEnv demoState ''demo'' = (Success, Some demoArchive)
     \<and> importCommand exampleEnv demoState ''demo.brick'' (Some demoArchive)
           \<lparr>o_name = Some ''copy'', force = False\<rparr>
           \<lparr>overwriteAnswer = Cancel, newNameInputs = []\<rparr> = (Success, st')
     \<and> loadTemplateMetadata exampleEnv st' ''copy'' = Some metadata'
     \<and> files metadata' = [''a.ts'', ''notes.txt'']
     \<and> dirs st' (getTemplatePath exampleEnv ''copy'') = Some (Directory d')
     \<and> map_of d' ''a.ts'' = Some (Text demoSource)
     \<and> map_of d' ''notes.txt'' = Some (Text ''keep\<newline>TODO drop\<newline>end'')"
proof -
  have i: "isInitialized demoState" by code_simp
  have res: "resolveTemplateName demoState ''demo'' = Some ''demo''" by code_simp
  have loc: "getTemplate demoState ''demo'' = Some (Local demoTemplate)" by code_simp
  have dir: "dirs demoState (getTemplatePath exampleEnv ''demo'') = Some (Directory demoDir)"
    by code_simp
  have wf: "distinct (map fst demoDir)" by code_simp
  have md: "loadTemplateMetadata exampleEnv demoState ''demo'' = Some demoMetadata" by code_simp
  have valid: "validName ''copy''" by code_simp
  have fresh: "\<not> templateExists demoState ''copy''" by code_simp
  have fs: "files demoMetadata = [''a.ts'', ''notes.txt'']" by code_simp
  have a: "map_of demoDir ''a.ts'' = Some (Text demoSource)" by code_simp
  have b: "map_of demoDir ''notes.txt'' = Some (Text ''keep\<newline>TODO drop\<newline>end'')" by code_simp
  have ex: "exportCommand exampleEnv demoState ''demo'' = (Success, Some demoArchive)"
    by code_simp
  from export_import_round_trip [OF i res loc dir wf md valid fresh,
      of "''demo.brick''" False "\<lparr>overwriteAnswer = Cancel, newNameInputs = []\<rparr>"]
  obtain ar st' metadata' d' where
    r: "exportCommand exampleEnv demoState ''demo'' = (Success, Some ar)"
       "importCommand exampleEnv demoState ''demo.brick'' (Some ar)
           \<lparr>o_name = Some ''copy'', force = False\<rparr>
           \<lparr>overwriteAnswer = Cancel, newNameInputs = []\<rparr> = (Success, st')"
       "loadTemplateMetadata exampleEnv st' ''copy'' = Some metadata'"
       "files metadata' = files demoMetadata"
       "dirs st' (getTemplatePath exampleEnv ''copy'') = Some (Directory d')"
       "\<forall>p. p \<noteq> ''brick.json'' \<longrightarrow> map_of d' p = map_of demoDir p"
    by blast
  from r(1) ex have ar: "ar = demoArchive" by simp
  have "map_of d' ''a.ts'' = map_of demoDir ''a.ts''" using r(6) by simp
  moreover have "map_of d' ''notes.txt'' = map_of demoDir ''notes.txt''" using r(6) by simp
  ultimately show ?thesis using r(2-5) ar ex fs a b by (intro exI [of _ st'] exI [of _ metadata'] exI [of _ d']) simp
qed

subsection \<open>Cancelled prompts\<close>

lemma installTemplate_not_cancelled:
  "fst (installTemplate E st fileName tmp metadata tn) \<noteq> Cancelled"
  by (simp add: installTemplate_def Let_def split: option.splits)

lemma writeTemplate_not_cancelled:
  "fst (writeTemplate E st n resolvedPath tree fileList desc tagList deps) \<noteq> Cancelled"
  by (simp add: writeTemplate_def Let_def split: option.splits node.splits)

lemma saveFiles_cancelled:
  "fst (saveFiles E st n resolvedPath tree opts ans) = Cancelled
   \<Longrightarrow> snd (saveFiles E st n resolvedPath tree opts ans) = st"
  using writeTemplate_not_cancelled
  by (auto simp: saveFiles_def Let_def split: if_splits reply.splits)

lemma cleanCommand_cancelled:
  "fst (cleanCommand E st nameOrIndex opts confirmed) = Cancelled
   \<Longrightarrow> snd (cleanCommand E st nameOrIndex opts confirmed) = st"
  by (simp add: cleanCommand_def Let_def
        split: option.splits Template.splits node.splits if_splits)

lemma importCommand_cancelled:
  "fst (importCommand E st fileName file opts ans) = Cancelled
   \<Longrightarrow> snd (importCommand E st fileName file opts ans) = st"
  using installTemplate_not_cancelled
  by (auto simp: importCommand_def Let_def
        split: option.splits content.splits if_splits reply.splits)

lemma saveCommand_cancelled:
  "fst (saveCommand E st n resolvedPath src opts ans) = Cancelled
   \<Longrightarrow> \<not> (templateExists st n \<and> shouldOverwrite ans = Answer True)
   \<Longrightarrow> snd (saveCommand E st n resolvedPath src opts ans) = st"
  using saveFiles_cancelled
  by (auto simp: saveCommand_def split: fsnode.splits if_splits)

lemma cleanCommand_unconfirmed:
  "confirmed \<noteq> Answer True \<Longrightarrow> snd (cleanCommand E st nameOrIndex opts confirmed) = st"
  by (simp add: cleanCommand_def Let_def
        split: option.splits Template.splits node.splits)

lemma saveCommand_overwrite_refused:
  "templateExists st n \<Longrightarrow> shouldOverwrite ans \<noteq> Answer True
   \<Longrightarrow> snd (saveCommand E st n resolvedPath src opts ans) = st"
  by (simp add: saveCommand_def split: fsnode.splits)

lemma cleanCommand_cancel_aborts:
  assumes "isInitialized st"
    and "resolveTemplateName st nameOrIndex = Some cn"
    and "getTemplate st cn = Some (Local t)"
    and "loadTemplateMetadata E st cn = Some metadata"
    and "dirs st (getTemplatePath E cn) = Some (Directory d)"
    and "concat (map (analyzeFile E d opts (detectProjectName E d)) (files metadata)) \<noteq> []"
    and "\<not> dryRun opts"
  shows "cleanCommand E st nameOrIndex opts Cancel = (Cancelled, st)"
  using assms by (simp add: cleanCommand_def Let_def)

lemma saveCommand_overwrite_cancel_aborts:
  "isInitialized st \<Longrightarrow> templateExists st n \<Longrightarrow> shouldOverwrite ans = Cancel
   \<Longrightarrow> saveCommand E st n resolvedPath (IsDir tree) opts ans = (Cancelled, st)"
  by (simp add: saveCommand_def)

lemma scanDependencies_Nil: "scanDependencies E tree [] = []"
  by (simp add: scanDependencies_def)

lemma saveFiles_dependency_cancel:
  assumes "detectDeps opts"
    and "scanDependencies E tree (selectFiles E opts tree) \<noteq> []"
    and "addDeps ans = Cancel"
  shows "saveFiles E st n resolvedPath tree opts ans = (Cancelled, st)"
proof -
  have "selectFiles E opts tree \<noteq> []" using assms(2) scanDependencies_Nil by metis
  then show ?thesis using assms by (simp add: saveFiles_def Let_def)
qed

lemma saveFiles_description_cancel:
  assumes "selectFiles E opts tree \<noteq> []"
    and "\<not> truthy (o_description opts)"
    and "descInput ans = Cancel"
  shows "saveFiles E st n resolvedPath tree opts ans = (Cancelled, st)"
  using assms by (simp add: saveFiles_def Let_def)

lemma saveCommand_without_overwrite:
  assumes "isInitialized st"
    and "\<not> (templateExists st n \<and> shouldOverwrite ans = Answer True)"
    and "saveFiles E st n resolvedPath tree opts ans = (Cancelled, st)"
  shows "saveCommand E st n resolvedPath (IsDir tree) opts ans = (Cancelled, st)"
  using assms by (simp add: saveCommand_def)

lemma importCommand_newName_cancel_aborts:
  assumes "isInitialized st"
    and "existsIn (tar_extract ar) ''brick.json''"
    and "map_of (tar_extract ar) ''brick.json'' = Some (Json metadata)"
    and "templateExists st (if truthy (o_name opts) then the (o_name opts) else name metadata)"
    and "\<not> force opts"
    and "overwriteAnswer ans \<noteq> Answer True"
    and "p_text validName (newNameInputs ans) = Cancel"
  shows "importCommand E st fileName (Some ar) opts ans = (Cancelled, st)"
  using assms by (simp add: importCommand_def Let_def)

lemma importCommand_overwrite_cancel_is_refusal:
  "importCommand E st fileName file opts (ans\<lparr>overwriteAnswer := Cancel\<rparr>)
     = importCommand E st fileName file opts (ans\<lparr>overwriteAnswer := Answer False\<rparr>)"
  by (simp add: importCommand_def Let_def split: option.splits content.splits)

text \<open>
  C1, as amended. A prompt that signals cancellation aborts the command, which ends as
  cancelled with the state (registry, metadata, storage directories) as it was before
  the command: the confirmation of \<^verbatim>\<open>cleanCommand\<close>, the overwrite confirmation of
  \<^verbatim>\<open>saveCommand\<close>, the dependency and description prompts of \<^verbatim>\<open>saveCommand\<close>
  when no overwrite was confirmed before them, and the new-name prompt of
  \<^verbatim>\<open>importCommand\<close>. Cancelling the overwrite confirmation of \<^verbatim>\<open>importCommand\<close>
  does not abort: it has exactly the effect of answering no, which leads to the
  new-name prompt. And whenever one of the three commands ends as cancelled, the state
  is the one before the command (for \<^verbatim>\<open>saveCommand\<close>, when no overwrite was
  confirmed).
\<close>

theorem cancelled_prompt_aborts:
  "(isInitialized st \<and> resolveTemplateName st nameOrIndex = Some cn
      \<and> getTemplate st cn = Some (Local t) \<and> loadTemplateMetadata E st cn = Some cmeta
      \<and> dirs st (getTemplatePath E cn) = Some (Directory d)
      \<and> concat (map (analyzeFile E d copts (detectProjectName E d)) (files cmeta)) \<noteq> []
      \<and> \<not> dryRun copts
      \<longrightarrow> cleanCommand E st nameOrIndex copts Cancel = (Cancelled, st))
   \<and> (isInitialized st \<and> templateExists st n \<and> shouldOverwrite sans = Cancel
      \<longrightarrow> saveCommand E st n resolvedPath (IsDir tree) sopts sans = (Cancelled, st))
   \<and> (isInitialized st \<and> \<not> (templateExists st n \<and> shouldOverwrite sans = Answer True)
        \<and> detectDeps sopts \<and> scanDependencies E tree (selectFiles E sopts tree) \<noteq> []
        \<and> addDeps sans = Cancel
      \<longrightarrow> saveCommand E st n resolvedPath (IsDir tree) sopts sans = (Cancelled, st))
   \<and> (isInitialized st \<and> \<not> (templateExists st n \<and> shouldOverwrite sans = Answer True)
        \<and> selectFiles E sopts tree \<noteq> [] \<and> \<not> truthy (o_description sopts)
        \<and> descInput sans = Cancel
      \<longrightarrow> saveCommand E st n resolvedPath (IsDir tree) sopts sans = (Cancelled, st))
   \<and> (isInitialized st \<and> existsIn (tar_extract ar) ''brick.json''
        \<and> map_of (tar_extract ar) ''brick.json'' = Some (Json imeta)
        \<and> templateExists st (if truthy (o_name iopts) then the (o_name iopts) else name imeta)
        \<and> \<not> force iopts \<and> overwriteAnswer ians \<noteq> Answer True
        \<and> p_text validName (newNameInputs ians) = Cancel
      \<longrightarrow> importCommand E st fileName (Some ar) iopts ians = (Cancelled, st))
   \<and> importCommand E st fileName brickFile iopts (ians\<lparr>overwriteAnswer := Cancel\<rparr>)
       = importCommand E st fileName brickFile iopts (ians\<lparr>overwriteAnswer := Answer False\<rparr>)
   \<and> (fst (cleanCommand E st nameOrIndex copts confirmed) = Cancelled
      \<longrightarrow> snd (cleanCommand E st nameOrIndex copts confirmed) = st)
   \<and> (confirmed = Cancel \<longrightarrow> snd (cleanCommand E st nameOrIndex copts confirmed) = st)
   \<and> (fst (importCommand E st fileName brickFile iopts ians) = Cancelled
      \<longrightarrow> snd (importCommand E st fileName brickFile iopts ians) = st)
   \<and> (templateExists st n \<and> shouldOverwrite sans = Cancel
      \<longrightarrow> snd (saveCommand E st n resolvedPath src sopts sans) = st)
   \<and> (fst (saveCommand E st n resolvedPath src sopts sans) = Cancelled
        \<and> \<not> (templateExists st n \<and> shouldOverwrite sans = Answer True)
      \<longrightarrow> snd (saveCommand E st n resolvedPath src sopts sans) = st)"
proof (intro conjI impI)
  assume "isInitialized st \<and> resolveTemplateName st nameOrIndex = Some cn
      \<and> getTemplate st cn = Some (Local t) \<and> loadTemplateMetadata E st cn = Some cmeta
      \<and> dirs st (getTemplatePath E cn) = Some (Directory d)
      \<and> concat (map (analyzeFile E d copts (detectProjectName E d)) (files cmeta)) \<noteq> []
      \<and> \<not> dryRun copts"
  then show "cleanCommand E st nameOrIndex copts Cancel = (Cancelled, st)"
    using cleanCommand_cancel_aborts by blast
next
  assume "isInitialized st \<and> templateExists st n \<and> shouldOverwrite sans = Cancel"
  then show "saveCommand E st n resolvedPath (IsDir tree) sopts sans = (Cancelled, st)"
    by (simp add: saveCommand_overwrite_cancel_aborts)
next
  assume a: "isInitialized st \<and> \<not> (templateExists st n \<and> shouldOverwrite sans = Answer True)
        \<and> detectDeps sopts \<and> scanDependencies E tree (selectFiles E sopts tree) \<noteq> []
        \<and> addDeps sans = Cancel"
  then have "saveFiles E st n resolvedPath tree sopts sans = (Cancelled, st)"
    by (simp add: saveFiles_dependency_cancel)
  with a show "saveCommand E st n resolvedPath (IsDir tree) sopts sans = (Cancelled, st)"
    by (simp add: saveCommand_without_overwrite)
next
  assume a: "isInitialized st \<and> \<not> (templateExists st n \<and> shouldOverwrite sans = Answer True)
        \<and> selectFiles E sopts tree \<noteq> [] \<and> \<not> truthy (o_description sopts)
        \<and> descInput sans = Cancel"
  then have "saveFiles E st n resolvedPath tree sopts sans = (Cancelled, st)"
    by (simp add: saveFiles_description_cancel)
  with a show "saveCommand E st n resolvedPath (IsDir tree) sopts sans = (Cancelled, st)"
    by (simp add: saveCommand_without_overwrite)
next
  assume "isInitialized st \<and> existsIn (tar_extract ar) ''brick.json''
        \<and> map_of (tar_extract ar) ''brick.json'' = Some (Json imeta)
        \<and> templateExists st (if truthy (o_name iopts) then the (o_name iopts) else name imeta)
        \<and> \<not> force iopts \<and> overwriteAnswer ians \<noteq> Answer True
        \<and> p_text validName (newNameInputs ians) = Cancel"
  then show "importCommand E st fileName (Some ar) iopts ians = (Cancelled, st)"
    using importCommand_newName_cancel_aborts by blast
next
  show "importCommand E st fileName brickFile iopts (ians\<lparr>overwriteAnswer := Cancel\<rparr>)
       = importCommand E st fileName brickFile iopts (ians\<lparr>overwriteAnswer := Answer False\<rparr>)"
    by (rule importCommand_overwrite_cancel_is_refusal)
next
  assume "fst (cleanCommand E st nameOrIndex copts confirmed) = Cancelled"
  then show "snd (cleanCommand E st nameOrIndex copts confirmed) = st"
    by (rule cleanCommand_cancelled)
next
  assume "confirmed = Cancel"
  then show "snd (cleanCommand E st nameOrIndex copts confirmed) = st"
    by (simp add: cleanCommand_unconfirmed)
next
  assume "fst (importCommand E st fileName brickFile iopts ians) = Cancelled"
  then show "snd (importCommand E st fileName brickFile iopts ians) = st"
    by (rule importCommand_cancelled)
next
  assume "templateExists st n \<and> shouldOverwrite sans = Cancel"
  then show "snd (saveCommand E st n resolvedPath src sopts sans) = st"
    by (simp add: saveCommand_overwrite_refused)
next
  assume "fst (saveCommand E st n resolvedPath src sopts sans) = Cancelled
        \<and> \<not> (templateExists st n \<and> shouldOverwrite sans = Answer True)"
  then show "snd (saveCommand E st n resolvedPath src sopts sans) = st"
    using saveCommand_cancelled by blast
qed

theorem cancelled_prompt_aborts_witness:
  "cleanCommand exampleEnv demoState ''demo''
       \<lparr>pattern = Some ''TODO'', dryRun = False, keepExternal = None\<rparr> Cancel
     = (Cancelled, demoState)
   \<and> saveCommand exampleEnv demoState ''demo'' ''/work/project'' (IsDir projectTree) plainSave
       \<lparr>shouldOverwrite = Cancel, addDeps = Answer True, descInput = Answer ''again''\<rparr>
     = (Cancelled, demoState)
   \<and> scanDependencies exampleDepsEnv projectTree
         (selectFiles exampleDepsEnv (plainSave\<lparr>detectDeps := True\<rparr>) projectTree)
       = [''lodash'']
   \<and> saveCommand exampleDepsEnv demoState ''fresh'' ''/work/project'' (IsDir projectTree)
       (plainSave\<lparr>detectDeps := True\<rparr>)
       \<lparr>shouldOverwrite = Answer True, addDeps = Cancel, descInput = Answer ''new''\<rparr>
     = (Cancelled, demoState)
   \<and> saveCommand exampleEnv demoState ''fresh'' ''/work/project'' (IsDir projectTree) plainSave
       \<lparr>shouldOverwrite = Answer True, addDeps = Answer True, descInput = Cancel\<rparr>
     = (Cancelled, demoState)
   \<and> p_text validName [Answer ''not valid'', Cancel] = Cancel
   \<and> importCommand exampleEnv demoState ''demo.brick'' (Some demoArchive)
       \<lparr>o_name = None, force = False\<rparr>
       \<lparr>overwriteAnswer = Answer False, newNameInputs = [Answer ''not valid'', Cancel]\<rparr>
     = (Cancelled, demoState)
   \<and> importCommand exampleEnv demoState ''demo.brick'' (Some demoArchive)
       \<lparr>o_name = None, force = False\<rparr>
       \<lparr>overwriteAnswer = Cancel, newNameInputs = [Answer ''demo2'']\<rparr>
     = importCommand exampleEnv demoState ''demo.brick'' (Some demoArchive)
       \<lparr>o_name = None, force = False\<rparr>
       \<lparr>overwriteAnswer = Answer False, newNameInputs = [Answer ''demo2'']\<rparr>"
proof -
  let ?copts = "\<lparr>pattern = Some ''TODO'', dryRun = False, keepExternal = None\<rparr>"
  let ?dopts = "plainSave\<lparr>detectDeps := True\<rparr>"
  let ?iopts = "\<lparr>o_name = None, force = False\<rparr>"
  let ?over = "\<lparr>shouldOverwrite = Cancel, addDeps = Answer True, descInput = Answer ''again''\<rparr>"
  let ?deps = "\<lparr>shouldOverwrite = Answer True, addDeps = Cancel, descInput = Answer ''new''\<rparr>"
  let ?desc = "\<lparr>shouldOverwrite = Answer True, addDeps = Answer True, descInput = Cancel\<rparr>"
  let ?ians = "\<lparr>overwriteAnswer = Answer False, newNameInputs = [Answer ''not valid'', Cancel]\<rparr>"
  let ?jans = "\<lparr>overwriteAnswer = Answer False, newNameInputs = [Answer ''demo2'']\<rparr>"
  have init: "isInitialized demoState" by code_simp
  have res: "resolveTemplateName demoState ''demo'' = Some ''demo''" by code_simp
  have loc: "getTemplate demoState ''demo'' = Some (Local demoTemplate)" by code_simp
  have md: "loadTemplateMetadata exampleEnv demoState ''demo'' = Some demoMetadata" by code_simp
  have dir: "dirs demoState (getTemplatePath exampleEnv ''demo'') = Some (Directory demoDir)"
    by code_simp
  have todo: "concat (map (analyzeFile exampleEnv demoDir ?copts
                (detectProjectName exampleEnv demoDir)) (files demoMetadata)) \<noteq> []"
    by code_simp
  have wet: "\<not> dryRun ?copts" by simp
  have taken: "templateExists demoState ''demo''" by code_simp
  have free: "\<not> (templateExists demoState ''fresh'' \<and> shouldOverwrite ?deps = Answer True)"
    by code_simp
  have free': "\<not> (templateExists demoState ''fresh'' \<and> shouldOverwrite ?desc = Answer True)"
    by code_simp
  have found: "scanDependencies exampleDepsEnv projectTree
                 (selectFiles exampleDepsEnv ?dopts projectTree) = [''lodash'']"
    by code_simp
  have some: "selectFiles exampleEnv plainSave projectTree \<noteq> []" by code_simp
  have nodesc: "\<not> truthy (o_description plainSave)" by code_simp
  have has: "existsIn (tar_extract demoArchive) ''brick.json''" by code_simp
  have meta: "map_of (tar_extract demoArchive) ''brick.json'' = Some (Json demoMetadata)"
    by code_simp
  have clash: "templateExists demoState
                 (if truthy (o_name ?iopts) then the (o_name ?iopts) else name demoMetadata)"
    by code_simp
  have asked: "p_text validName [Answer ''not valid'', Cancel] = Cancel" by code_simp
  note c = cancelled_prompt_aborts [where E = exampleEnv and st = demoState
      and nameOrIndex = "''demo''" and cn = "''demo''" and t = demoTemplate
      and cmeta = demoMetadata and d = demoDir and copts = ?copts
      and n = "''demo''" and sans = ?over and resolvedPath = "''/work/project''"
      and tree = projectTree and sopts = plainSave
      and ar = demoArchive and imeta = demoMetadata and iopts = ?iopts and ians = ?ians
      and fileName = "''demo.brick''" and brickFile = "Some demoArchive"]
  note s1 = cancelled_prompt_aborts [where E = exampleDepsEnv and st = demoState
      and n = "''fresh''" and sans = ?deps and resolvedPath = "''/work/project''"
      and tree = projectTree and sopts = ?dopts]
  note s2 = cancelled_prompt_aborts [where E = exampleEnv and st = demoState
      and n = "''fresh''" and sans = ?desc and resolvedPath = "''/work/project''"
      and tree = projectTree and sopts = plainSave]
  note r = cancelled_prompt_aborts [where E = exampleEnv and st = demoState
      and fileName = "''demo.brick''" and brickFile = "Some demoArchive" and iopts = ?iopts
      and ians = ?jans]
  have a1: "cleanCommand exampleEnv demoState ''demo'' ?copts Cancel = (Cancelled, demoState)"
    using c init res loc md dir todo wet by blast
  have a2: "saveCommand exampleEnv demoState ''demo'' ''/work/project'' (IsDir projectTree)
              plainSave ?over = (Cancelled, demoState)"
    using c init taken by simp
  have a3: "saveCommand exampleDepsEnv demoState ''fresh'' ''/work/project'' (IsDir projectTree)
              ?dopts ?deps = (Cancelled, demoState)"
    using s1 init free found by simp
  have a4: "saveCommand exampleEnv demoState ''fresh'' ''/work/project'' (IsDir projectTree)
              plainSave ?desc = (Cancelled, demoState)"
    using s2 init free' some nodesc by simp
  have a5: "importCommand exampleEnv demoState ''demo.brick'' (Some demoArchive) ?iopts ?ians
              = (Cancelled, demoState)"
    using c init has meta clash asked by simp
  have a6: "importCommand exampleEnv demoState ''demo.brick'' (Some demoArchive) ?iopts
              \<lparr>overwriteAnswer = Cancel, newNameInputs = [Answer ''demo2'']\<rparr>
            = importCommand exampleEnv demoState ''demo.brick'' (Some demoArchive) ?iopts ?jans"
    using r by simp
  from a1 a2 found a3 a4 asked a5 a6 show ?thesis by (intro conjI)
qed

text \<open>
  C1 as stated fails: cancelling the overwrite confirmation of \<^verbatim>\<open>importCommand\<close> does
  not abort the import. It is taken as a refusal to overwrite and leads to the new-name
  prompt; with a name entered there the archive is imported and the registry grows.
\<close>

theorem importCommand_overwrite_cancel_counterexample:
  "templateExists demoState ''demo''
   \<and> overwriteAnswer \<lparr>overwriteAnswer = Cancel, newNameInputs = [Answer ''demo2'']\<rparr> = Cancel
   \<and> fst (importCommand exampleEnv demoState ''demo.brick'' (Some demoArchive)
          \<lparr>o_name = None, force = False\<rparr>
          \<lparr>overwriteAnswer = Cancel, newNameInputs = [Answer ''demo2'']\<rparr>) = Success
   \<and> map fst (store demoState) = [''demo'']
   \<and> map fst (store (snd (importCommand exampleEnv demoState ''demo.brick'' (Some demoArchive)
          \<lparr>o_name = None, force = False\<rparr>
          \<lparr>overwriteAnswer = Cancel, newNameInputs = [Answer ''demo2'']\<rparr>))) = [''demo'', ''demo2'']"
  by code_simp

text \<open>
  The case the amended C1 leaves open: \<^verbatim>\<open>saveCommand\<close> removes the storage directory
  as soon as the overwrite is confirmed, so cancelling the description prompt after that
  ends the command with the directory gone and the registry entry still there.
\<close>

lemma saveCommand_cancel_after_overwrite:
  "templateExists demoState ''demo''
   \<and> dirs demoState (getTemplatePath exampleEnv ''demo'') = Some (Directory demoDir)
   \<and> fst (saveCommand exampleEnv demoState ''demo'' ''/work/project'' (IsDir projectTree) plainSave
          \<lparr>shouldOverwrite = Answer True, addDeps = Cancel, descInput = Cancel\<rparr>) = Cancelled
   \<and> dirs (snd (saveCommand exampleEnv demoState ''demo'' ''/work/project'' (IsDir projectTree)
          plainSave \<lparr>shouldOverwrite = Answer True, addDeps = Cancel, descInput = Cancel\<rparr>))
        (getTemplatePath exampleEnv ''demo'') = None
   \<and> templateExists (snd (saveCommand exampleEnv demoState ''demo'' ''/work/project''
          (IsDir projectTree) plainSave
          \<lparr>shouldOverwrite = Answer True, addDeps = Cancel, descInput = Cancel\<rparr>)) ''demo''"
  by code_simp

subsection \<open>What save and import record\<close>

lemma sorted_collect: "sorted (getFilesRecursive tree)"
  by (simp add: getFilesRecursive_def)

lemma selectFiles_sorted_without_include:
  "\<not> truthy (o_include opts) \<Longrightarrow> sorted (selectFiles E opts tree)"
  by (simp add: selectFiles_def Let_def sorted_collect sorted_wrt_filter)

lemma p_text_validated: "p_text validate inputs = Answer v \<Longrightarrow> validate v"
  by (induction validate inputs rule: p_text.induct) (auto split: if_splits)

lemma getTemplate_added: "getTemplate (addTemplateToStore n t st) n = Some t"
  by (simp add: getTemplate_def addTemplateToStore_def map_of_put)

lemma installTemplate_records_storage_path:
  assumes "installTemplate E st fileName tmp metadata tn = (Success, st')"
  shows "\<exists>t. getTemplate st' tn = Some (Local t) \<and> path t = getTemplatePath E tn"
proof -
  from assms obtain s t where "st' = addTemplateToStore tn (Local t) s"
    and "path t = getTemplatePath E tn"
    by (auto simp: installTemplate_def Let_def split: option.splits)
  then show ?thesis by (simp add: getTemplate_added)
qed

lemma writeTemplate_records_relative_path:
  assumes "writeTemplate E st n resolvedPath tree fileList desc tagList deps = (Success, st')"
  shows "\<exists>t. getTemplate st' n = Some (Local t) \<and> path t = ''templates/'' @ n"
proof -
  from assms obtain s t where "st' = addTemplateToStore n (Local t) s"
    and "path t = ''templates/'' @ n"
    by (auto simp: writeTemplate_def Let_def split: option.splits node.splits if_splits)
  then show ?thesis by (simp add: getTemplate_added)
qed

lemma storage_path_not_relative: "getTemplatePath E n \<noteq> ''templates/'' @ n"
proof
  assume "getTemplatePath E n = ''templates/'' @ n"
  then have "length (getTemplatePath E n) = length (''templates/'' @ n)" by simp
  then show False by (simp add: getTemplatePath_def)
qed

text \<open>
  C3 fails on the code when \<^verbatim>\<open>--include\<close> is given: the manifest is the list fast-glob
  returned, in its order, and nothing sorts it (without \<^verbatim>\<open>--include\<close> the list comes
  sorted from \<^verbatim>\<open>getFilesRecursive\<close>, as the lemma above shows). Saving with
  \<^verbatim>\<open>--include "z/*.ts, a/*.ts"\<close> writes the manifest \<^verbatim>\<open>z/x.ts, a/y.ts\<close>.
\<close>

theorem saveCommand_include_keeps_glob_order:
  "fst (saveCommand exampleEnv demoState ''globbed'' ''/work/project'' (IsDir projectTree)
          (plainSave\<lparr>o_include := Some ''z/*.ts, a/*.ts''\<rparr>)
          \<lparr>shouldOverwrite = Cancel, addDeps = Cancel, descInput = Answer ''two files''\<rparr>) = Success
   \<and> map_option files (loadTemplateMetadata exampleEnv
        (snd (saveCommand exampleEnv demoState ''globbed'' ''/work/project'' (IsDir projectTree)
          (plainSave\<lparr>o_include := Some ''z/*.ts, a/*.ts''\<rparr>)
          \<lparr>shouldOverwrite = Cancel, addDeps = Cancel, descInput = Answer ''two files''\<rparr>))
        ''globbed'') = Some [''z/x.ts'', ''a/y.ts'']
   \<and> sort [''z/x.ts'', ''a/y.ts''] = [''a/y.ts'', ''z/x.ts'']"
  by code_simp

text \<open>
  C5 fails on the code: \<^verbatim>\<open>saveCommand\<close> never checks the name it is given, so a
  template is recorded under \<^verbatim>\<open>my template!\<close>. Only the new-name prompt of the import
  validates what it returns (\<open>p_text_validated\<close>).
\<close>

theorem saveCommand_records_unchecked_name:
  "\<not> validName ''my template!''
   \<and> fst (saveCommand exampleEnv demoState ''my template!'' ''/work/project'' (IsDir projectTree)
          plainSave \<lparr>shouldOverwrite = Cancel, addDeps = Cancel, descInput = Answer []\<rparr>) = Success
   \<and> map fst (store (snd (saveCommand exampleEnv demoState ''my template!'' ''/work/project''
          (IsDir projectTree) plainSave
          \<lparr>shouldOverwrite = Cancel, addDeps = Cancel, descInput = Answer []\<rparr>)))
       = [''demo'', ''my template!'']"
  by code_simp

text \<open>
  C4 fails on the code for the import: the registry entry written by
  \<^verbatim>\<open>importCommand\<close> holds \<^verbatim>\<open>templateDir\<close>, the full storage path
  (\<open>installTemplate_records_storage_path\<close>), where \<^verbatim>\<open>saveCommand\<close> writes
  \<^verbatim>\<open>templates/<name>\<close> (\<open>writeTemplate_records_relative_path\<close>); the two differ
  for every name.
\<close>

theorem importCommand_records_absolute_path:
  "fst (importCommand exampleEnv demoState ''demo.brick'' (Some demoArchive)
          \<lparr>o_name = Some ''copy'', force = False\<rparr>
          \<lparr>overwriteAnswer = Cancel, newNameInputs = []\<rparr>) = Success
   \<and> getTemplate (snd (importCommand exampleEnv demoState ''demo.brick'' (Some demoArchive)
          \<lparr>o_name = Some ''copy'', force = False\<rparr>
          \<lparr>overwriteAnswer = Cancel, newNameInputs = []\<rparr>)) ''copy''
       = Some (Local \<lparr>path = ''/home/dev/.codebrick/templates/copy'', t_description = ''A demo'',
                      t_tags = [''ts''], t_createdAt = ''2026-01-11T10:30:00.000Z'',
                      t_updatedAt = ''2026-02-01T09:00:00.000Z''\<rparr>)"
  by code_simp

end
